theory Spec2Isabelle
  imports Complex_Main
begin

section \<open>Strings\<close>

text \<open>
  A Python \<open>str\<close> is modelled as a \<^typ>\<open>string\<close>, one \<^typ>\<open>char\<close> per code point, so
  \<open>len\<close> is \<^const>\<open>length\<close>; the strings of the model are the texts of code points below
  256. White space, decimal digits and the case mappings are those of Python on these
  code points. Two capitals have no code point below 256, those of U+00B5 and of U+00FF
  (U+039C and U+0178): \<open>upper_char\<close> leaves these two letters as they are.
\<close>

definition cp :: "char \<Rightarrow> nat" where
  "cp c = of_char c"

text \<open>\<open>str.isspace\<close> on one character, for the code points below 256.\<close>

definition is_space :: "char \<Rightarrow> bool" where
  "is_space c = ((9 \<le> cp c \<and> cp c \<le> 13) \<or> (28 \<le> cp c \<and> cp c \<le> 32) \<or> cp c = 133 \<or> cp c = 160)"

definition is_digit :: "char \<Rightarrow> bool" where
  "is_digit c = (48 \<le> cp c \<and> cp c \<le> 57)"

definition digit_val :: "char \<Rightarrow> nat" where
  "digit_val c = cp c - 48"

definition is_upper_az :: "char \<Rightarrow> bool" where
  "is_upper_az c = (65 \<le> cp c \<and> cp c \<le> 90)"

definition is_lower_az :: "char \<Rightarrow> bool" where
  "is_lower_az c = (97 \<le> cp c \<and> cp c \<le> 122)"

text \<open>
  The simple case mappings: the letters a to z and U+00E0 to U+00FE (without the division
  sign U+00F7) have their capital 32 code points below, and conversely for A to Z and
  U+00C0 to U+00DE (without the multiplication sign U+00D7).
\<close>

definition upper_char :: "char \<Rightarrow> char" where
  "upper_char c =
     (if is_lower_az c \<or> (224 \<le> cp c \<and> cp c \<le> 254 \<and> cp c \<noteq> 247)
      then char_of (cp c - 32) else c)"

definition lower_char :: "char \<Rightarrow> char" where
  "lower_char c =
     (if is_upper_az c \<or> (192 \<le> cp c \<and> cp c \<le> 222 \<and> cp c \<noteq> 215)
      then char_of (cp c + 32) else c)"

text \<open>The sharp s (U+00DF) is written \<open>SS\<close> in upper case and \<open>Ss\<close> in title case.\<close>

definition upper_chars :: "char \<Rightarrow> string" where
  "upper_chars c = (if cp c = 223 then ''SS'' else [upper_char c])"

definition title_chars :: "char \<Rightarrow> string" where
  "title_chars c = (if cp c = 223 then ''Ss'' else [upper_char c])"

text \<open>The cased characters: the letters with a case, and the two ordinal indicators.\<close>

definition cased :: "char \<Rightarrow> bool" where
  "cased c =
     (is_upper_az c \<or> is_lower_az c \<or> cp c = 170 \<or> cp c = 181 \<or> cp c = 186
      \<or> (192 \<le> cp c \<and> cp c \<noteq> 215 \<and> cp c \<noteq> 247))"

text \<open>\<open>s.upper()\<close> and \<open>s.lower()\<close>.\<close>

definition upper :: "string \<Rightarrow> string" where
  "upper s = concat (map upper_chars s)"

definition lower :: "string \<Rightarrow> string" where
  "lower s = map lower_char s"

text \<open>\<open>s.strip()\<close>: white space removed at both ends.\<close>

definition strip :: "string \<Rightarrow> string" where
  "strip s = rev (dropWhile is_space (rev (dropWhile is_space s)))"

text \<open>Python's truth value of an \<open>Optional[str]\<close>: \<open>None\<close> and \<open>""\<close> are false.\<close>

fun truthy :: "string option \<Rightarrow> bool" where
  "truthy None = False"
| "truthy (Some s) = (s \<noteq> [])"

section \<open>Integers read and written as text\<close>

text \<open>
  The white space that \<open>int\<close> skips at both ends of a string: the ASCII white space of C,
  and the white space above U+007F. The separators U+001C to U+001F are white space for
  \<open>str.strip\<close> but not for \<open>int\<close>.
\<close>

definition is_int_space :: "char \<Rightarrow> bool" where
  "is_int_space c = ((9 \<le> cp c \<and> cp c \<le> 13) \<or> cp c = 32 \<or> cp c = 133 \<or> cp c = 160)"

text \<open>
  \<open>int(s)\<close> for a string, base ten: white space is skipped at both ends, one sign may
  lead, and the rest is a non-empty run of decimal digits in which single underscores may
  stand between two digits. \<open>None\<close> is the \<open>ValueError\<close>.
\<close>

fun digits_val :: "nat \<Rightarrow> string \<Rightarrow> nat option" where
  "digits_val acc [] = None"
| "digits_val acc [c] = (if is_digit c then Some (acc * 10 + digit_val c) else None)"
| "digits_val acc (c # d # cs) =
     (if is_digit c then
        (if d = CHR ''_'' then
           (case cs of [] \<Rightarrow> None
            | e # es \<Rightarrow> if is_digit e then digits_val (acc * 10 + digit_val c) cs else None)
         else digits_val (acc * 10 + digit_val c) (d # cs))
      else None)"

definition py_int :: "string \<Rightarrow> int option" where
  "py_int s =
     (case rev (dropWhile is_int_space (rev (dropWhile is_int_space s))) of
        [] \<Rightarrow> None
      | c # cs \<Rightarrow>
          if c = CHR ''+'' then map_option int (digits_val 0 cs)
          else if c = CHR ''-'' then map_option (\<lambda>n. - int n) (digits_val 0 cs)
          else map_option int (digits_val 0 (c # cs)))"

text \<open>The decimal digits of a natural number, most significant first.\<close>

fun nat_digits :: "nat \<Rightarrow> string" where
  "nat_digits n =
     (if n < 10 then [char_of (48 + n)]
      else nat_digits (n div 10) @ [char_of (48 + n mod 10)])"

declare nat_digits.simps [simp del]

text \<open>
  The format specification \<open>0wd\<close> of an f-string (\<open>f"{n:04d}"\<close>, \<open>f"{n:02d}"\<close>): the sign
  first, then zeros up to the width \<open>w\<close>, then the digits; a number wider than \<open>w\<close> is
  written in full.
\<close>

definition fmt_0d :: "nat \<Rightarrow> int \<Rightarrow> string" where
  "fmt_0d w n =
     (let ds = nat_digits (nat \<bar>n\<bar>);
          sgn = (if n < 0 then ''-'' else [])
      in sgn @ replicate (w - length sgn - length ds) CHR ''0'' @ ds)"

section \<open>MRZ dates\<close>

text \<open>
  \<open>PassportExtractor._parse_mrz_date\<close>. The first argument is \<open>datetime.now().year\<close>.
  Any exception of the \<open>try\<close> block (here: a \<open>ValueError\<close> of \<open>int\<close>) gives \<open>None\<close>.
\<close>

definition parse_mrz_date :: "int \<Rightarrow> string \<Rightarrow> string option" where
  "parse_mrz_date now_year date_str =
     (if date_str = [] \<or> length date_str < 6 then None
      else
        (case (py_int (take 2 date_str), py_int (take 2 (drop 2 date_str)),
               py_int (take 2 (drop 4 date_str))) of
           (Some yy, Some mm, Some dd) \<Rightarrow>
             (let current_year = now_year mod 100;
                  year = (if yy > current_year + 10 then 1900 + yy else 2000 + yy)
              in Some (fmt_0d 4 year @ ''-'' @ fmt_0d 2 mm @ ''-'' @ fmt_0d 2 dd))
         | _ \<Rightarrow> None))"

section \<open>Locating the MRZ lines\<close>

text \<open>\<open>s.split(sep)\<close> for a separator of one character: the result is never empty.\<close>

fun split_on :: "char \<Rightarrow> string \<Rightarrow> string list" where
  "split_on sep [] = [[]]"
| "split_on sep (c # cs) =
     (if c = sep then [] # split_on sep cs
      else (case split_on sep cs of
              [] \<Rightarrow> [[c]]
            | l # ls \<Rightarrow> (c # l) # ls))"

definition newline :: char where
  "newline = CHR 0x0A"

definition filler :: char where
  "filler = CHR ''<''"

text \<open>The MRZ alphabet, the character class \<open>[A-Z0-9<]\<close>.\<close>

definition mrz_alpha :: "char \<Rightarrow> bool" where
  "mrz_alpha c = (is_upper_az c \<or> is_digit c \<or> c = filler)"

text \<open>
  The cleaning of one line in \<open>_find_mrz_lines\<close>: spaces are removed, the look-alike
  glyphs are mapped to the filler, and \<open>re.sub(r'[^A-Z0-9<]', '', cleaned)\<close> deletes
  every character outside the MRZ alphabet. Of the two glyphs the source replaces, the
  left guillemet is the code point 171; the single guillemet (code point 8249) lies
  outside the code points of \<^typ>\<open>char\<close>, so the model has no input to replace it in.
\<close>

definition clean_line :: "string \<Rightarrow> string" where
  "clean_line line =
     filter mrz_alpha
       (map (\<lambda>c. if c = CHR 0xAB then filler else c) (filter (\<lambda>c. c \<noteq> CHR '' '') line))"

text \<open>
  \<open>mrz_pattern.match(cleaned)\<close> for \<open>^[A-Z0-9<]{40,50}$\<close>: between 40 and 50 characters
  of the alphabet, up to the end of the string or to a final line break.
\<close>

definition mrz_pattern_match :: "string \<Rightarrow> bool" where
  "mrz_pattern_match s =
     (let body = (if s \<noteq> [] \<and> last s = newline then butlast s else s)
      in list_all mrz_alpha body \<and> 40 \<le> length body \<and> length body \<le> 50)"

text \<open>The normalisation to 44 characters: pad with the filler, or truncate.\<close>

definition normalize_line :: "string \<Rightarrow> string" where
  "normalize_line cleaned =
     (if length cleaned < 44 then cleaned @ replicate (44 - length cleaned) filler
      else if length cleaned > 44 then take 44 cleaned
      else cleaned)"

text \<open>The body of the loop over the lines: the candidate a line gives, if any.\<close>

definition mrz_candidate :: "string \<Rightarrow> string option" where
  "mrz_candidate line =
     (let cleaned = clean_line line
      in if mrz_pattern_match cleaned \<and> 42 \<le> length cleaned \<and> length cleaned \<le> 46
         then Some (normalize_line cleaned)
         else None)"

definition mrz_candidates :: "string \<Rightarrow> string list" where
  "mrz_candidates text = List.map_filter mrz_candidate (split_on newline (upper text))"

text \<open>\<open>PassportExtractor._find_mrz_lines\<close>.\<close>

definition find_mrz_lines :: "string \<Rightarrow> (string \<times> string) option" where
  "find_mrz_lines text =
     (let candidates = mrz_candidates text
      in if length candidates \<ge> 2 then Some (candidates ! 0, candidates ! 1) else None)"

section \<open>More string operations\<close>

text \<open>\<open>s.split()\<close>: the maximal runs of characters that are not white space.\<close>

fun split_ws_acc :: "string \<Rightarrow> string \<Rightarrow> string list" where
  "split_ws_acc cur [] = (if cur = [] then [] else [rev cur])"
| "split_ws_acc cur (c # cs) =
     (if is_space c then (if cur = [] then split_ws_acc [] cs else rev cur # split_ws_acc [] cs)
      else split_ws_acc (c # cur) cs)"

definition split_ws :: "string \<Rightarrow> string list" where
  "split_ws s = split_ws_acc [] s"

text \<open>\<open>sep.join(parts)\<close>.\<close>

fun join :: "string \<Rightarrow> string list \<Rightarrow> string" where
  "join sep [] = []"
| "join sep [x] = x"
| "join sep (x # y # ys) = x @ sep @ join sep (y # ys)"

text \<open>
  \<open>s.title()\<close>: a character is written in title case when the character before it is not
  cased, and in lower case otherwise.
\<close>

fun title_from :: "bool \<Rightarrow> string \<Rightarrow> string" where
  "title_from prev_cased [] = []"
| "title_from prev_cased (c # cs) =
     (if prev_cased then [lower_char c] else title_chars c) @ title_from (cased c) cs"

definition title :: "string \<Rightarrow> string" where
  "title s = title_from False s"

text \<open>\<open>s.replace(a, b)\<close> for single characters, and \<open>s.replace(a, '')\<close>.\<close>

definition replace_char :: "char \<Rightarrow> char \<Rightarrow> string \<Rightarrow> string" where
  "replace_char a b s = map (\<lambda>c. if c = a then b else c) s"

definition remove_char :: "char \<Rightarrow> string \<Rightarrow> string" where
  "remove_char a s = filter (\<lambda>c. c \<noteq> a) s"

text \<open>\<open>re.sub(r'\s+', ' ', s)\<close>: every run of white space becomes one space.\<close>

fun collapse_ws_from :: "bool \<Rightarrow> string \<Rightarrow> string" where
  "collapse_ws_from in_ws [] = []"
| "collapse_ws_from in_ws (c # cs) =
     (if is_space c
      then (if in_ws then collapse_ws_from True cs else CHR '' '' # collapse_ws_from True cs)
      else c # collapse_ws_from False cs)"

definition collapse_ws :: "string \<Rightarrow> string" where
  "collapse_ws s = collapse_ws_from False s"

section \<open>The data model\<close>

text \<open>
  \<open>models.PassportData\<close> and \<open>models.AttorneyData\<close>. Every field is optional. The
  confidence is a Python float; the scores the program computes are sums of multiples of
  \<open>1/4\<close> and \<open>1/8\<close>, which binary floating point represents exactly, and no such number
  lies between the float written \<open>0.3\<close> and the rational \<open>3/10\<close>, so rational arithmetic
  gives every comparison the value the program computes. The fields of the attorney
  record carry the prefix \<open>a_\<close>, since both classes name fields alike.
\<close>

record PassportData =
  last_name :: "string option"
  first_name :: "string option"
  middle_name :: "string option"
  passport_number :: "string option"
  country_of_issue :: "string option"
  nationality :: "string option"
  date_of_birth :: "string option"
  place_of_birth :: "string option"
  sex :: "string option"
  date_of_issue :: "string option"
  date_of_expiration :: "string option"
  extraction_method :: "string option"
  confidence_score :: "rat option"

record AttorneyData =
  a_last_name :: "string option"
  a_first_name :: "string option"
  a_middle_name :: "string option"
  a_street_address :: "string option"
  a_apt_ste_flr :: "string option"
  a_city :: "string option"
  a_state :: "string option"
  a_zip_code :: "string option"
  a_country :: "string option"
  a_daytime_phone :: "string option"
  a_mobile_phone :: "string option"
  a_email :: "string option"
  a_licensing_authority :: "string option"
  a_bar_number :: "string option"
  a_law_firm_name :: "string option"
  a_online_account_number :: "string option"
  a_extraction_method :: "string option"
  a_confidence_score :: "rat option"

text \<open>\<open>PassportData()\<close> and \<open>AttorneyData()\<close>: every field is \<open>None\<close>.\<close>

definition empty_passport :: PassportData where
  "empty_passport =
     \<lparr>last_name = None, first_name = None, middle_name = None, passport_number = None,
      country_of_issue = None, nationality = None, date_of_birth = None,
      place_of_birth = None, sex = None, date_of_issue = None, date_of_expiration = None,
      extraction_method = None, confidence_score = None\<rparr>"

definition empty_attorney :: AttorneyData where
  "empty_attorney =
     \<lparr>a_last_name = None, a_first_name = None, a_middle_name = None,
      a_street_address = None, a_apt_ste_flr = None, a_city = None, a_state = None,
      a_zip_code = None, a_country = None, a_daytime_phone = None, a_mobile_phone = None,
      a_email = None, a_licensing_authority = None, a_bar_number = None,
      a_law_firm_name = None, a_online_account_number = None,
      a_extraction_method = None, a_confidence_score = None\<rparr>"

text \<open>
  A call into a collaborator (the OCR engine, the PDF reader, the LLM service, the MRZ
  checker, a parser) either raises or returns.
\<close>

datatype 'a outcome = Raised | Returned 'a

section \<open>State codes\<close>

definition US_STATES :: "(string \<times> string) list" where
  "US_STATES =
    [(''alabama'', ''AL''), (''al'', ''AL''), (''alaska'', ''AK''), (''ak'', ''AK''),
     (''arizona'', ''AZ''), (''az'', ''AZ''), (''arkansas'', ''AR''), (''ar'', ''AR''),
     (''california'', ''CA''), (''ca'', ''CA''), (''colorado'', ''CO''), (''co'', ''CO''),
     (''connecticut'', ''CT''), (''ct'', ''CT''), (''delaware'', ''DE''), (''de'', ''DE''),
     (''district of columbia'', ''DC''), (''dc'', ''DC''), (''florida'', ''FL''), (''fl'', ''FL''),
     (''georgia'', ''GA''), (''ga'', ''GA''), (''hawaii'', ''HI''), (''hi'', ''HI''),
     (''idaho'', ''ID''), (''id'', ''ID''), (''illinois'', ''IL''), (''il'', ''IL''),
     (''indiana'', ''IN''), (''in'', ''IN''), (''iowa'', ''IA''), (''ia'', ''IA''),
     (''kansas'', ''KS''), (''ks'', ''KS''), (''kentucky'', ''KY''), (''ky'', ''KY''),
     (''louisiana'', ''LA''), (''la'', ''LA''), (''maine'', ''ME''), (''me'', ''ME''),
     (''maryland'', ''MD''), (''md'', ''MD''), (''massachusetts'', ''MA''), (''ma'', ''MA''),
     (''michigan'', ''MI''), (''mi'', ''MI''), (''minnesota'', ''MN''), (''mn'', ''MN''),
     (''mississippi'', ''MS''), (''ms'', ''MS''), (''missouri'', ''MO''), (''mo'', ''MO''),
     (''montana'', ''MT''), (''mt'', ''MT''), (''nebraska'', ''NE''), (''ne'', ''NE''),
     (''nevada'', ''NV''), (''nv'', ''NV''), (''new hampshire'', ''NH''), (''nh'', ''NH''),
     (''new jersey'', ''NJ''), (''nj'', ''NJ''), (''new mexico'', ''NM''), (''nm'', ''NM''),
     (''new york'', ''NY''), (''ny'', ''NY''), (''north carolina'', ''NC''), (''nc'', ''NC''),
     (''north dakota'', ''ND''), (''nd'', ''ND''), (''ohio'', ''OH''), (''oh'', ''OH''),
     (''oklahoma'', ''OK''), (''ok'', ''OK''), (''oregon'', ''OR''), (''or'', ''OR''),
     (''pennsylvania'', ''PA''), (''pa'', ''PA''), (''rhode island'', ''RI''), (''ri'', ''RI''),
     (''south carolina'', ''SC''), (''sc'', ''SC''), (''south dakota'', ''SD''), (''sd'', ''SD''),
     (''tennessee'', ''TN''), (''tn'', ''TN''), (''texas'', ''TX''), (''tx'', ''TX''),
     (''utah'', ''UT''), (''ut'', ''UT''), (''vermont'', ''VT''), (''vt'', ''VT''),
     (''virginia'', ''VA''), (''va'', ''VA''), (''washington'', ''WA''), (''wa'', ''WA''),
     (''west virginia'', ''WV''), (''wv'', ''WV''), (''wisconsin'', ''WI''), (''wi'', ''WI''),
     (''wyoming'', ''WY''), (''wy'', ''WY'')]"

text \<open>
  \<open>models.normalize_state\<close>: \<open>US_STATES.get(state_str.lower().strip(),
  state_str.upper()[:2])\<close>, and \<open>None\<close> for \<open>None\<close> and for the empty string.
\<close>

definition normalize_state :: "string option \<Rightarrow> string option" where
  "normalize_state state_str =
     (case state_str of
        None \<Rightarrow> None
      | Some s \<Rightarrow>
          if s = [] then None
          else (case map_of US_STATES (strip (lower s)) of
                  Some code \<Rightarrow> Some code
                | None \<Rightarrow> Some (take 2 (upper s))))"

section \<open>The G-28 extractor\<close>

subsection \<open>Confidence\<close>

text \<open>\<open>G28Extractor._calculate_confidence\<close>.\<close>

definition calculate_confidence :: "AttorneyData \<Rightarrow> rat" where
  "calculate_confidence data =
     (let required = [a_last_name data, a_first_name data];
          important = [a_street_address data, a_city data, a_state data, a_email data];
          req_score = of_nat (length (filter truthy required)) / of_nat (length required) * 0.5;
          imp_score = of_nat (length (filter truthy important)) / of_nat (length important) * 0.5
      in min 1.0 (req_score + imp_score))"

subsection \<open>PDF form fields\<close>

text \<open>
  A form widget as the PDF reader gives it, and the dictionary \<open>form_fields\<close> in insertion
  order. The values are strings, as the reader's contract says.
\<close>

record widget =
  field_name :: "string option"
  field_value :: "string option"

fun dict_set :: "string \<Rightarrow> string \<Rightarrow> (string \<times> string) list \<Rightarrow> (string \<times> string) list" where
  "dict_set k v [] = [(k, v)]"
| "dict_set k v ((k', v') # kvs) =
     (if k = k' then (k, v) # kvs else (k', v') # dict_set k v kvs)"

text \<open>The loop over the widgets: a widget with a name and a value is stored under its
  name and under its name in lower case.\<close>

fun collect_form_fields :: "widget list \<Rightarrow> (string \<times> string) list \<Rightarrow> (string \<times> string) list" where
  "collect_form_fields [] form_fields = form_fields"
| "collect_form_fields (w # ws) form_fields =
     (if truthy (field_name w) \<and> truthy (field_value w)
      then (case (field_name w, field_value w) of
              (Some n, Some v) \<Rightarrow>
                collect_form_fields ws (dict_set (lower n) v (dict_set n v form_fields))
            | _ \<Rightarrow> collect_form_fields ws form_fields)
      else collect_form_fields ws form_fields)"

text \<open>\<open>value and value.strip() and value.strip().upper() != 'N/A'\<close>, and the value that is
  then stored.\<close>

definition usable_value :: "string \<Rightarrow> string option" where
  "usable_value v =
     (if v \<noteq> [] \<and> strip v \<noteq> [] \<and> upper (strip v) \<noteq> ''N/A'' then Some (strip v) else None)"

definition lookup_usable :: "(string \<times> string) list \<Rightarrow> string \<Rightarrow> string option" where
  "lookup_usable form_fields key =
     (case map_of form_fields key of None \<Rightarrow> None | Some v \<Rightarrow> usable_value v)"

text \<open>
  \<open>for key in [name, name.lower()]\<close>: the first key that is present with a usable value
  sets the attribute and ends the loop. The attribute is \<open>None\<close> before, so \<open>None\<close> stands
  for an attribute that is not set.
\<close>

definition mapped_value :: "(string \<times> string) list \<Rightarrow> string \<Rightarrow> string option" where
  "mapped_value form_fields name =
     (case lookup_usable form_fields name of
        Some v \<Rightarrow> Some v
      | None \<Rightarrow> lookup_usable form_fields (lower name))"

definition attorney_of_fields :: "(string \<times> string) list \<Rightarrow> AttorneyData" where
  "attorney_of_fields ff =
     empty_attorney
       \<lparr>a_last_name := mapped_value ff ''Pt1Line2a_FamilyName[0]'',
        a_first_name := mapped_value ff ''Pt1Line2b_GivenName[0]'',
        a_middle_name := mapped_value ff ''Pt1Line2c_MiddleName[0]'',
        a_street_address := mapped_value ff ''Line3a_StreetNumber[0]'',
        a_apt_ste_flr := mapped_value ff ''Line3b_AptSteFlrNumber[0]'',
        a_city := mapped_value ff ''Line3c_CityOrTown[0]'',
        a_state := mapped_value ff ''Line3d_State[0]'',
        a_zip_code := mapped_value ff ''Line3e_ZipCode[0]'',
        a_country := mapped_value ff ''Line3h_Country[0]'',
        a_daytime_phone := mapped_value ff ''Line4_DaytimeTelephoneNumber[0]'',
        a_mobile_phone := mapped_value ff ''Line7_MobileTelephoneNumber[0]'',
        a_email := mapped_value ff ''Line6_EMail[0]'',
        a_bar_number := mapped_value ff ''Pt2Line1b_BarNumber[0]'',
        a_licensing_authority := mapped_value ff ''Pt2Line1a_LicensingAuthority[0]'',
        a_law_firm_name := mapped_value ff ''Pt2Line1d_NameofFirmOrOrganization[0]''\<rparr>"

text \<open>The repair of an email address found in the mobile phone field.\<close>

definition repair_mobile_email :: "AttorneyData \<Rightarrow> AttorneyData" where
  "repair_mobile_email data =
     (case a_mobile_phone data of
        None \<Rightarrow> data
      | Some m \<Rightarrow>
          if m \<noteq> [] \<and> CHR ''@'' \<in> set m
          then (if \<not> truthy (a_email data) then data\<lparr>a_email := Some m\<rparr> else data)
                 \<lparr>a_mobile_phone := None\<rparr>
          else data)"

definition beneficiary_of_fields :: "(string \<times> string) list \<Rightarrow> PassportData option" where
  "beneficiary_of_fields ff =
     (let beneficiary = empty_passport
            \<lparr>last_name := mapped_value ff ''Pt3Line5a_FamilyName[0]'',
             first_name := mapped_value ff ''Pt3Line5b_GivenName[0]'',
             middle_name := mapped_value ff ''Pt3Line5c_MiddleName[0]''\<rparr>
      in if truthy (last_name beneficiary) \<or> truthy (first_name beneficiary)
         then Some (beneficiary\<lparr>extraction_method := Some ''G28_BENEFICIARY'',
                                confidence_score := Some 0.5\<rparr>)
         else None)"

text \<open>
  \<open>G28Extractor._extract_pdf_form_fields\<close>. The argument is what the PDF reader yields:
  it raises (also when it is not installed), or returns the widgets of every page. Any
  exception gives \<open>(None, None)\<close>.
\<close>

definition extract_pdf_form_fields ::
    "widget list list outcome \<Rightarrow> AttorneyData option \<times> PassportData option" where
  "extract_pdf_form_fields pdf =
     (case pdf of
        Raised \<Rightarrow> (None, None)
      | Returned pages \<Rightarrow>
          (let form_fields = collect_form_fields (concat pages) []
           in if form_fields = [] then (None, None)
              else (let data = repair_mobile_email (attorney_of_fields form_fields);
                        beneficiary = beneficiary_of_fields form_fields
                    in (Some (data\<lparr>a_confidence_score := Some (calculate_confidence data)\<rparr>),
                        beneficiary))))"

subsection \<open>Pattern extraction from OCR text\<close>

text \<open>
  The regular expressions of \<open>G28Extractor._extract_from_text\<close>, in the order of the
  source. The regular expression engine is a collaborator: \<open>search p text\<close> is the group
  the source reads from \<open>re.search\<close> (group 1; the whole match for the email), or \<open>None\<close>
  when the pattern does not match.
\<close>

datatype g28_pattern =
    Pat_last_name | Pat_first_name | Pat_middle_name | Pat_street | Pat_city | Pat_state
  | Pat_zip | Pat_email | Pat_bar_number | Pat_licensing | Pat_firm

definition name_stop_words :: "string list" where
  "name_stop_words = [''name'', ''last'', ''first'', ''given'', ''family'', ''middle'']"

definition name_value :: "string option \<Rightarrow> string option" where
  "name_value m =
     (case m of
        None \<Rightarrow> None
      | Some g \<Rightarrow>
          (let v = strip g
           in if lower v \<notin> set name_stop_words then Some (title v) else None))"

text \<open>\<open>re.sub(r'\s+[A-Z]{2}$', '', s)\<close> on a stripped string: a final run of white space
  followed by two capital letters is removed.\<close>

definition drop_state_suffix :: "string \<Rightarrow> string" where
  "drop_state_suffix s =
     (case rev s of
        b # a # rest \<Rightarrow>
          (case rest of
             [] \<Rightarrow> s
           | w # _ \<Rightarrow>
               if is_upper_az a \<and> is_upper_az b \<and> is_space w
               then rev (dropWhile is_space rest) else s)
      | _ \<Rightarrow> s)"

definition infer_country :: "AttorneyData \<Rightarrow> AttorneyData" where
  "infer_country data =
     (if \<not> truthy (a_country data) \<and> truthy (a_state data)
      then data\<lparr>a_country := Some ''United States''\<rparr> else data)"

definition g28_extract_from_text ::
    "(g28_pattern \<Rightarrow> string \<Rightarrow> string option) \<Rightarrow> string \<Rightarrow> AttorneyData" where
  "g28_extract_from_text search t =
     infer_country
       (empty_attorney
         \<lparr>a_last_name := name_value (search Pat_last_name t),
          a_first_name := name_value (search Pat_first_name t),
          a_middle_name := name_value (search Pat_middle_name t),
          a_street_address :=
            map_option (\<lambda>g. take 100 (collapse_ws (strip g))) (search Pat_street t),
          a_city := map_option (\<lambda>g. drop_state_suffix (strip g)) (search Pat_city t),
          a_state := (case search Pat_state t of
                        None \<Rightarrow> None | Some g \<Rightarrow> normalize_state (Some g)),
          a_zip_code := search Pat_zip t,
          a_email := map_option lower (search Pat_email t),
          a_bar_number := search Pat_bar_number t,
          a_licensing_authority := map_option (\<lambda>g. title (strip g)) (search Pat_licensing t),
          a_law_firm_name := map_option (\<lambda>g. collapse_ws (strip g)) (search Pat_firm t)\<rparr>)"

subsection \<open>The orchestrator\<close>

text \<open>
  What \<open>G28Extractor.extract\<close> reads: the suffix of the path, what the PDF reader and the
  image loader yield, whether \<open>pytesseract\<close> can be imported, what it returns for each
  page image, and the regular expression engine.
\<close>

record g28_input =
  gi_suffix :: string
  gi_pdf :: "widget list list outcome"
  gi_images :: "string outcome list outcome"
  gi_pytesseract :: bool
  gi_search :: "g28_pattern \<Rightarrow> string \<Rightarrow> string option"

text \<open>\<open>_get_images\<close>: no image when loading raises.\<close>

definition g28_get_images :: "g28_input \<Rightarrow> string outcome list" where
  "g28_get_images inp = (case gi_images inp of Raised \<Rightarrow> [] | Returned imgs \<Rightarrow> imgs)"

text \<open>\<open>_ocr_image\<close>: \<open>None\<close> when the import or the OCR raises.\<close>

definition g28_ocr_image :: "g28_input \<Rightarrow> string outcome \<Rightarrow> string option" where
  "g28_ocr_image inp img =
     (if \<not> gi_pytesseract inp then None
      else (case img of Raised \<Rightarrow> None | Returned t \<Rightarrow> Some t))"

fun accumulate_text :: "g28_input \<Rightarrow> string outcome list \<Rightarrow> string \<Rightarrow> string" where
  "accumulate_text inp [] full_text = full_text"
| "accumulate_text inp (img # imgs) full_text =
     (if truthy (g28_ocr_image inp img)
      then (case g28_ocr_image inp img of
              Some t \<Rightarrow> accumulate_text inp imgs (full_text @ t @ [newline])
            | None \<Rightarrow> accumulate_text inp imgs full_text)
      else accumulate_text inp imgs full_text)"

definition failed_attorney :: AttorneyData where
  "failed_attorney =
     empty_attorney\<lparr>a_extraction_method := Some ''FAILED'', a_confidence_score := Some 0.0\<rparr>"

text \<open>The OCR fallback of \<open>extract\<close>, from \<open>images = self._get_images(...)\<close> on.\<close>

definition g28_ocr_fallback :: "g28_input \<Rightarrow> AttorneyData \<times> PassportData option" where
  "g28_ocr_fallback inp =
     (let full_text = accumulate_text inp (g28_get_images inp) []
      in if full_text \<noteq> []
         then (let data = g28_extract_from_text (gi_search inp) full_text
               in (data\<lparr>a_extraction_method := Some ''OCR+NLP'',
                        a_confidence_score := Some (calculate_confidence data)\<rparr>, None))
         else (failed_attorney, None))"

text \<open>The first strategy of \<open>extract\<close>: the result it returns, if it returns one.\<close>

definition g28_pdf_strategy :: "g28_input \<Rightarrow> (AttorneyData \<times> PassportData option) option" where
  "g28_pdf_strategy inp =
     (if lower (gi_suffix inp) = ''.pdf''
      then (case extract_pdf_form_fields (gi_pdf inp) of
              (Some form_data, beneficiary) \<Rightarrow>
                if calculate_confidence form_data > 0.3
                then Some (form_data\<lparr>a_extraction_method := Some ''PDF_FORM_FIELDS''\<rparr>,
                           beneficiary)
                else None
            | (None, _) \<Rightarrow> None)
      else None)"

text \<open>\<open>G28Extractor.extract\<close>.\<close>

definition g28_extract :: "g28_input \<Rightarrow> AttorneyData \<times> PassportData option" where
  "g28_extract inp =
     (case g28_pdf_strategy inp of
        Some result \<Rightarrow> result
      | None \<Rightarrow> g28_ocr_fallback inp)"

text \<open>
  \<open>extract\<close> with the one exception that can leave it. \<open>_get_images\<close> imports \<open>PIL\<close> before
  its \<open>try\<close>, so where that import fails the \<open>ImportError\<close> leaves \<open>extract\<close> as soon as
  the OCR fallback is reached; \<^const>\<open>g28_extract\<close> is \<open>extract\<close> where \<open>PIL\<close> is installed.
\<close>

definition g28_extract_outcome ::
    "bool \<Rightarrow> g28_input \<Rightarrow> (AttorneyData \<times> PassportData option) outcome" where
  "g28_extract_outcome pil_installed inp =
     (case g28_pdf_strategy inp of
        Some result \<Rightarrow> Returned result
      | None \<Rightarrow> if pil_installed then Returned (g28_ocr_fallback inp) else Raised)"

section \<open>The passport extractor\<close>

subsection \<open>MRZ fields\<close>

definition COUNTRY_CODES :: "(string \<times> string) list" where
  "COUNTRY_CODES =
    [(''USA'', ''United States''), (''GBR'', ''United Kingdom''), (''CAN'', ''Canada''),
     (''AUS'', ''Australia''), (''DEU'', ''Germany''), (''FRA'', ''France''), (''ITA'', ''Italy''),
     (''ESP'', ''Spain''), (''JPN'', ''Japan''), (''CHN'', ''China''), (''IND'', ''India''),
     (''BRA'', ''Brazil''), (''MEX'', ''Mexico''), (''KOR'', ''South Korea''), (''RUS'', ''Russia''),
     (''NLD'', ''Netherlands''), (''BEL'', ''Belgium''), (''CHE'', ''Switzerland''),
     (''AUT'', ''Austria''), (''SWE'', ''Sweden''), (''NOR'', ''Norway''), (''DNK'', ''Denmark''),
     (''FIN'', ''Finland''), (''POL'', ''Poland''), (''PRT'', ''Portugal''), (''GRC'', ''Greece''),
     (''IRL'', ''Ireland''), (''NZL'', ''New Zealand''), (''SGP'', ''Singapore''),
     (''HKG'', ''Hong Kong''), (''TWN'', ''Taiwan''), (''THA'', ''Thailand''), (''VNM'', ''Vietnam''),
     (''PHL'', ''Philippines''), (''IDN'', ''Indonesia''), (''MYS'', ''Malaysia''),
     (''ARG'', ''Argentina''), (''CHL'', ''Chile''), (''COL'', ''Colombia''), (''PER'', ''Peru''),
     (''ZAF'', ''South Africa''), (''EGY'', ''Egypt''), (''NGA'', ''Nigeria''), (''KEN'', ''Kenya''),
     (''ISR'', ''Israel''), (''ARE'', ''United Arab Emirates''), (''SAU'', ''Saudi Arabia''),
     (''TUR'', ''Turkey''), (''PAK'', ''Pakistan''), (''BGD'', ''Bangladesh'')]"

text \<open>\<open>fields.get(key, '')\<close> and \<open>COUNTRY_CODES.get(code, code)\<close>.\<close>

definition field_get :: "(string \<times> string) list \<Rightarrow> string \<Rightarrow> string" where
  "field_get mrz_fields key = (case map_of mrz_fields key of None \<Rightarrow> [] | Some v \<Rightarrow> v)"

definition country_name :: "string \<Rightarrow> string" where
  "country_name code = (case map_of COUNTRY_CODES code of None \<Rightarrow> code | Some n \<Rightarrow> n)"

text \<open>
  \<open>PassportExtractor._parse_mrz_fields\<close>, on the dictionary of the checker's fields. The
  constructor of \<open>PassportData\<close> validates \<open>sex\<close> against the literals \<open>M\<close>, \<open>F\<close> and
  \<open>X\<close> and raises on any other value.
\<close>

definition parse_mrz_fields :: "int \<Rightarrow> (string \<times> string) list \<Rightarrow> PassportData outcome" where
  "parse_mrz_fields now_year mrz_fields =
     (let surname = strip (replace_char CHR ''<'' CHR '' '' (field_get mrz_fields ''surname''));
          given_names = strip (replace_char CHR ''<'' CHR '' '' (field_get mrz_fields ''name''));
          name_parts = split_ws given_names;
          first = (case name_parts of [] \<Rightarrow> None | p # _ \<Rightarrow> Some p);
          middle = (if length name_parts > 1 then Some (join '' '' (tl name_parts)) else None);
          sex_value = (if upper (field_get mrz_fields ''sex'') = [] then None
                       else Some (upper (field_get mrz_fields ''sex'')))
      in if sex_value \<notin> {None, Some ''M'', Some ''F'', Some ''X''} then Raised
         else Returned
           \<lparr>last_name = (if surname \<noteq> [] then Some (title surname) else None),
            first_name = (if truthy first then map_option title first else None),
            middle_name = (if truthy middle then map_option title middle else None),
            passport_number = Some (remove_char CHR ''<'' (field_get mrz_fields ''document_number'')),
            country_of_issue = Some (country_name (field_get mrz_fields ''country'')),
            nationality = Some (country_name (field_get mrz_fields ''nationality'')),
            date_of_birth = parse_mrz_date now_year (field_get mrz_fields ''birth_date''),
            place_of_birth = None,
            sex = sex_value,
            date_of_issue = None,
            date_of_expiration = parse_mrz_date now_year (field_get mrz_fields ''expiry_date''),
            extraction_method = None,
            confidence_score = None\<rparr>)"

subsection \<open>Collaborators\<close>

text \<open>
  The MRZ checker on the two lines: it raises, it finds the lines invalid, or it
  validates them and gives the fields.
\<close>

datatype td3_outcome = TD3_Raised | TD3_Invalid | TD3_Valid "(string \<times> string) list"

text \<open>
  The language model of the named-entity recogniser: the import raises, the model is not
  installed (\<open>OSError\<close>, after which \<open>nlp\<close> is \<open>None\<close>), or it is loaded and gives the
  texts of the \<open>PERSON\<close> entities of a text, unless it raises.
\<close>

datatype nlp_state =
    Spacy_import_error
  | Spacy_model_missing
  | Spacy_loaded "string \<Rightarrow> string list outcome"

text \<open>The regular expressions of \<open>PassportExtractor._extract_from_text\<close>, in the order of
  the source; \<open>search p text\<close> is group 1 of \<open>re.search\<close>.\<close>

datatype passport_pattern =
    Pat_passport_label | Pat_passport_letters_digits | Pat_passport_nine_digits
  | Pat_dob_numeric | Pat_dob_words | Pat_sex

text \<open>A page image, given by what the OCR engine returns for it under the two
  configurations the extractor uses.\<close>

record page =
  ocr_mrz :: "string outcome"
  ocr_plain :: "string outcome"

text \<open>
  What \<open>PassportExtractor.extract\<close> reads: its argument \<open>use_llm\<close>, the API key of the
  environment, whether \<open>openai\<close>, \<open>pytesseract\<close> and \<open>mrz\<close> can be imported, whether the
  image for the LLM could be prepared, what the completion and \<open>_parse_response\<close> give
  (raising, \<open>None\<close> for a response that is no JSON, or a record), the page images, the MRZ
  checker, the current year, the regular expression engine, the entity recogniser and
  the date parser.
\<close>

record passport_input =
  use_llm :: bool
  api_key :: "string option"
  openai_installed :: bool
  llm_image_prepared :: bool
  llm_completion :: "PassportData option outcome"
  images :: "page list outcome"
  pytesseract_installed :: bool
  mrz_installed :: bool
  td3_checker :: "string \<Rightarrow> td3_outcome"
  now_year :: int
  search :: "passport_pattern \<Rightarrow> string \<Rightarrow> string option"
  nlp :: nlp_state
  dateparser :: "string \<Rightarrow> string option outcome"

subsection \<open>The LLM strategy\<close>

text \<open>\<open>is_llm_available\<close> and \<open>LLMPassportExtractor.extract\<close>.\<close>

definition is_llm_available :: "passport_input \<Rightarrow> bool" where
  "is_llm_available inp = truthy (api_key inp)"

definition llm_extract :: "passport_input \<Rightarrow> PassportData option" where
  "llm_extract inp =
     (if \<not> (openai_installed inp \<and> truthy (api_key inp)) then None
      else if \<not> llm_image_prepared inp then None
      else (case llm_completion inp of
              Raised \<Rightarrow> None
            | Returned None \<Rightarrow> None
            | Returned (Some result) \<Rightarrow>
                Some (result\<lparr>extraction_method := Some ''LLM_OPENAI'',
                             confidence_score := Some 0.95\<rparr>)))"

text \<open>The first block of \<open>extract\<close>: the record it returns, if it returns there.\<close>

definition llm_strategy :: "passport_input \<Rightarrow> PassportData option" where
  "llm_strategy inp =
     (if use_llm inp then
        (if is_llm_available inp then
           (case llm_extract inp of
              None \<Rightarrow> None
            | Some result \<Rightarrow>
                if truthy (passport_number result) \<or> truthy (last_name result)
                then Some result else None)
         else None)
      else None)"

subsection \<open>The MRZ strategy\<close>

definition get_images :: "passport_input \<Rightarrow> page list" where
  "get_images inp = (case images inp of Raised \<Rightarrow> [] | Returned imgs \<Rightarrow> imgs)"

text \<open>\<open>_ocr_image\<close>: \<open>None\<close> when the import or the OCR raises.\<close>

definition ocr_image :: "passport_input \<Rightarrow> page \<Rightarrow> string option" where
  "ocr_image inp img =
     (if \<not> pytesseract_installed inp then None
      else (case ocr_mrz img of Raised \<Rightarrow> None | Returned t \<Rightarrow> Some t))"

text \<open>The loop of \<open>_extract_mrz\<close> over the images.\<close>

fun extract_mrz_loop :: "passport_input \<Rightarrow> page list \<Rightarrow> PassportData option" where
  "extract_mrz_loop inp [] = None"
| "extract_mrz_loop inp (img # imgs) =
     (if \<not> truthy (ocr_image inp img) then extract_mrz_loop inp imgs
      else (case ocr_image inp img of
              None \<Rightarrow> extract_mrz_loop inp imgs
            | Some t \<Rightarrow>
                (case find_mrz_lines t of
                   None \<Rightarrow> extract_mrz_loop inp imgs
                 | Some (line1, line2) \<Rightarrow>
                     (case td3_checker inp (line1 @ [newline] @ line2) of
                        TD3_Valid mrz_fields \<Rightarrow>
                          (case parse_mrz_fields (now_year inp) mrz_fields of
                             Returned data \<Rightarrow> Some data
                           | Raised \<Rightarrow> extract_mrz_loop inp imgs)
                      | _ \<Rightarrow> extract_mrz_loop inp imgs))))"

definition extract_mrz :: "passport_input \<Rightarrow> page list \<Rightarrow> PassportData option" where
  "extract_mrz inp imgs = (if \<not> mrz_installed inp then None else extract_mrz_loop inp imgs)"

subsection \<open>The OCR strategy\<close>

text \<open>\<open>_normalize_date\<close>: the parsed date, or the string itself when the parser finds no
  date or raises.\<close>

definition normalize_date :: "passport_input \<Rightarrow> string \<Rightarrow> string option" where
  "normalize_date inp date_str =
     (case dateparser inp date_str of
        Raised \<Rightarrow> Some date_str
      | Returned None \<Rightarrow> Some date_str
      | Returned (Some parsed) \<Rightarrow> Some parsed)"

text \<open>\<open>for pattern in [...]: match = re.search(...); if match: ...; break\<close>.\<close>

fun first_match ::
    "(passport_pattern \<Rightarrow> string \<Rightarrow> string option) \<Rightarrow> passport_pattern list \<Rightarrow> string \<Rightarrow> string option" where
  "first_match srch [] t = None"
| "first_match srch (p # ps) t =
     (case srch p t of Some g \<Rightarrow> Some g | None \<Rightarrow> first_match srch ps t)"

text \<open>The names taken from the first \<open>PERSON\<close> entity.\<close>

definition set_person_names :: "string list \<Rightarrow> PassportData \<Rightarrow> PassportData" where
  "set_person_names persons data =
     (case persons of
        [] \<Rightarrow> data
      | person # _ \<Rightarrow>
          (let parts = split_ws person
           in if length parts \<ge> 2
              then (let named = data\<lparr>first_name := Some (hd parts), last_name := Some (last parts)\<rparr>
                    in if length parts > 2
                       then named\<lparr>middle_name := Some (join '' '' (butlast (tl parts)))\<rparr>
                       else named)
              else data))"

definition sex_code :: "string \<Rightarrow> string" where
  "sex_code g =
     (let s = upper g
      in if s = ''M'' \<or> s = ''MALE'' then ''M''
         else if s = ''F'' \<or> s = ''FEMALE'' then ''F'' else ''X'')"

text \<open>
  \<open>PassportExtractor._extract_from_text\<close>. It raises when the import of the entity
  recogniser or the recogniser itself raises.
\<close>

definition passport_extract_from_text :: "passport_input \<Rightarrow> string \<Rightarrow> PassportData outcome" where
  "passport_extract_from_text inp t =
     (let numbered = empty_passport
            \<lparr>passport_number :=
               map_option upper
                 (first_match (search inp)
                    [Pat_passport_label, Pat_passport_letters_digits, Pat_passport_nine_digits] t)\<rparr>;
          finish = (\<lambda>data.
            (let dated = (case first_match (search inp) [Pat_dob_numeric, Pat_dob_words] t of
                            None \<Rightarrow> data
                          | Some g \<Rightarrow> data\<lparr>date_of_birth := normalize_date inp g\<rparr>)
             in (case search inp Pat_sex t of
                   None \<Rightarrow> dated
                 | Some g \<Rightarrow> dated\<lparr>sex := Some (sex_code g)\<rparr>)))
      in (case nlp inp of
            Spacy_import_error \<Rightarrow> Raised
          | Spacy_model_missing \<Rightarrow> Returned (finish numbered)
          | Spacy_loaded recognise \<Rightarrow>
              (case recognise (take 2000 t) of
                 Raised \<Rightarrow> Raised
               | Returned persons \<Rightarrow> Returned (finish (set_person_names persons numbered)))))"

text \<open>The loop of \<open>_extract_via_ocr\<close> over the images; an exception ends the work on the
  image only.\<close>

fun extract_via_ocr_loop :: "passport_input \<Rightarrow> page list \<Rightarrow> PassportData option" where
  "extract_via_ocr_loop inp [] = None"
| "extract_via_ocr_loop inp (img # imgs) =
     (case ocr_plain img of
        Raised \<Rightarrow> extract_via_ocr_loop inp imgs
      | Returned t \<Rightarrow>
          if t \<noteq> [] \<and> length t \<ge> 50
          then (case passport_extract_from_text inp t of
                  Raised \<Rightarrow> extract_via_ocr_loop inp imgs
                | Returned data \<Rightarrow>
                    if truthy (passport_number data) \<or> truthy (last_name data)
                    then Some data else extract_via_ocr_loop inp imgs)
          else extract_via_ocr_loop inp imgs)"

definition extract_via_ocr :: "passport_input \<Rightarrow> page list \<Rightarrow> PassportData option" where
  "extract_via_ocr inp imgs =
     (if \<not> pytesseract_installed inp then None else extract_via_ocr_loop inp imgs)"

subsection \<open>The orchestrator\<close>

definition failed_passport :: PassportData where
  "failed_passport =
     empty_passport\<lparr>extraction_method := Some ''FAILED'', confidence_score := Some 0.0\<rparr>"

text \<open>\<open>extract\<close> from \<open>images = self._get_images(...)\<close> on: MRZ, then OCR, then failure.\<close>

definition extract_without_llm :: "passport_input \<Rightarrow> PassportData" where
  "extract_without_llm inp =
     (let imgs = get_images inp;
          mrz_data = extract_mrz inp imgs;
          accepted = (case mrz_data of
                        None \<Rightarrow> None
                      | Some m \<Rightarrow> if truthy (passport_number m) then Some m else None)
      in (case accepted of
            Some m \<Rightarrow> m\<lparr>extraction_method := Some ''MRZ'', confidence_score := Some 0.95\<rparr>
          | None \<Rightarrow>
              (case extract_via_ocr inp imgs of
                 Some ocr_data \<Rightarrow>
                   ocr_data\<lparr>extraction_method := Some ''OCR+NLP'', confidence_score := Some 0.7\<rparr>
               | None \<Rightarrow> failed_passport)))"

text \<open>\<open>PassportExtractor.extract\<close>.\<close>

definition passport_extract :: "passport_input \<Rightarrow> PassportData" where
  "passport_extract inp =
     (case llm_strategy inp of
        Some result \<Rightarrow> result
      | None \<Rightarrow> extract_without_llm inp)"

text \<open>
  \<open>extract\<close> with the one exception that can leave it. \<open>_prepare_image\<close> and \<open>_get_images\<close>
  import \<open>PIL\<close> before their \<open>try\<close>. Where that import fails, the \<open>ImportError\<close> of
  \<open>_prepare_image\<close> is caught in the first block of \<open>extract\<close>, which then returns
  nothing, and the one of \<open>_get_images\<close> leaves \<open>extract\<close>; \<^const>\<open>passport_extract\<close> is
  \<open>extract\<close> where \<open>PIL\<close> is installed.
\<close>

definition passport_extract_outcome :: "bool \<Rightarrow> passport_input \<Rightarrow> PassportData outcome" where
  "passport_extract_outcome pil_installed inp =
     (case (if pil_installed then llm_strategy inp else None) of
        Some result \<Rightarrow> Returned result
      | None \<Rightarrow> if pil_installed then Returned (extract_without_llm inp) else Raised)"

section \<open>The session store\<close>

text \<open>\<open>models.ExtractedFormData\<close> and the dictionary \<open>extraction_store\<close> of \<open>app\<close>.\<close>

record ExtractedFormData =
  passport :: "PassportData option"
  attorney :: "AttorneyData option"
  raw_text :: "(string \<times> string) list"
  errors :: "string list"

definition empty_form_data :: ExtractedFormData where
  "empty_form_data = \<lparr>passport = None, attorney = None, raw_text = [], errors = []\<rparr>"

type_synonym store = "string \<Rightarrow> ExtractedFormData option"

text \<open>The field-level merge of \<open>upload_g28\<close> into the passport record of the session.\<close>

definition merge_names :: "PassportData \<Rightarrow> PassportData \<Rightarrow> PassportData" where
  "merge_names existing beneficiary_data =
     (let e1 = (if \<not> truthy (last_name existing)
                then existing\<lparr>last_name := last_name beneficiary_data\<rparr> else existing);
          e2 = (if \<not> truthy (first_name e1)
                then e1\<lparr>first_name := first_name beneficiary_data\<rparr> else e1)
      in if \<not> truthy (middle_name e2)
         then e2\<lparr>middle_name := middle_name beneficiary_data\<rparr> else e2)"

definition merge_beneficiary :: "PassportData option \<Rightarrow> PassportData option \<Rightarrow> PassportData option" where
  "merge_beneficiary stored beneficiary_data =
     (case beneficiary_data of
        None \<Rightarrow> stored
      | Some b \<Rightarrow>
          (case stored of
             Some existing \<Rightarrow> Some (merge_names existing b)
           | None \<Rightarrow> Some b))"

text \<open>
  The part of \<open>upload_g28\<close> that writes the store, after the extractor has returned the
  attorney record and the beneficiary record.
\<close>

definition upload_g28_store ::
    "store \<Rightarrow> string \<Rightarrow> AttorneyData \<Rightarrow> PassportData option \<Rightarrow> store" where
  "upload_g28_store st session_id attorney_data beneficiary_data =
     (let entry = (case st session_id of None \<Rightarrow> empty_form_data | Some e \<Rightarrow> e);
          with_attorney = entry\<lparr>attorney := Some attorney_data\<rparr>
      in st(session_id \<mapsto>
              with_attorney\<lparr>passport := merge_beneficiary (passport with_attorney) beneficiary_data\<rparr>))"

text \<open>The part of \<open>upload_passport\<close> that writes the store.\<close>

definition upload_passport_store :: "store \<Rightarrow> string \<Rightarrow> PassportData \<Rightarrow> store" where
  "upload_passport_store st session_id passport_data =
     (let entry = (case st session_id of None \<Rightarrow> empty_form_data | Some e \<Rightarrow> e)
      in st(session_id \<mapsto> entry\<lparr>passport := Some passport_data\<rparr>))"

section \<open>Example documents\<close>

text \<open>OCR text of a passport page: a name line of 42 characters written in lower case
  with a space inside, a line of noise, and a number line of 46 characters.\<close>

definition example_mrz_text :: string where
  "example_mrz_text = ''p<utoeriksson<<anna <maria<<<<<<<<<<<<<<<<<'' @ [newline]
     @ ''passport'' @ [newline]
     @ ''L898902C36UTO7408122F1204159ZE184226B<<<<<1012''"

definition example_mrz_line1 :: string where
  "example_mrz_line1 = ''P<UTOERIKSSON<<ANNA<MARIA<<<<<<<<<<<<<<<<<<<''"

definition example_mrz_line2 :: string where
  "example_mrz_line2 = ''L898902C36UTO7408122F1204159ZE184226B<<<<<10''"

text \<open>An OCR text in which the state pattern finds the letters \<open>ZZ\<close>, and the regular
  expression engine on it.\<close>

definition example_state_text :: string where
  "example_state_text = ''State: ZZ''"

definition example_state_search :: "g28_pattern \<Rightarrow> string \<Rightarrow> string option" where
  "example_state_search p t = (if p = Pat_state \<and> t = example_state_text then Some ''ZZ'' else None)"

text \<open>A G-28 form whose only filled widget is the mobile phone field, holding an email
  address.\<close>

definition example_mobile_widgets :: "widget list list" where
  "example_mobile_widgets =
     [[\<lparr>field_name = Some ''Line7_MobileTelephoneNumber[0]'',
        field_value = Some ''jane@example.com''\<rparr>]]"

text \<open>A scanned G-28 (an image, no PDF) on which the OCR finds text and no pattern
  matches.\<close>

definition example_scan :: g28_input where
  "example_scan =
     \<lparr>gi_suffix = ''.png'', gi_pdf = Raised, gi_images = Returned [Returned ''illegible''],
      gi_pytesseract = True, gi_search = (\<lambda>p t. None)\<rparr>"

text \<open>A fillable G-28 with the representative's names and the beneficiary's family
  name, and the same form with the family name only.\<close>

definition example_form :: g28_input where
  "example_form =
     \<lparr>gi_suffix = ''.PDF'',
      gi_pdf = Returned
        [[\<lparr>field_name = Some ''Pt1Line2a_FamilyName[0]'', field_value = Some '' Smith ''\<rparr>,
          \<lparr>field_name = Some ''Pt1Line2b_GivenName[0]'', field_value = Some ''Joe''\<rparr>],
         [\<lparr>field_name = Some ''Pt3Line5a_FamilyName[0]'', field_value = Some ''Silva''\<rparr>,
          \<lparr>field_name = Some ''Line3d_State[0]'', field_value = Some ''n/a''\<rparr>]],
      gi_images = Raised, gi_pytesseract = False, gi_search = (\<lambda>p t. None)\<rparr>"

definition example_sparse_form :: g28_input where
  "example_sparse_form =
     \<lparr>gi_suffix = ''.pdf'',
      gi_pdf = Returned
        [[\<lparr>field_name = Some ''Pt1Line2a_FamilyName[0]'', field_value = Some ''Smith''\<rparr>]],
      gi_images = Raised, gi_pytesseract = True, gi_search = (\<lambda>p t. None)\<rparr>"

text \<open>Attorney records with an email address in the phone field, without and with an
  email of their own, and a form with a phone number and an email address.\<close>

definition example_misplaced :: AttorneyData where
  "example_misplaced = empty_attorney\<lparr>a_mobile_phone := Some ''jane@example.com''\<rparr>"

definition example_misplaced_with_email :: AttorneyData where
  "example_misplaced_with_email =
     empty_attorney\<lparr>a_mobile_phone := Some ''jane@example.com'',
                     a_email := Some ''office@example.com''\<rparr>"

definition example_contact_form :: g28_input where
  "example_contact_form =
     \<lparr>gi_suffix = ''.pdf'',
      gi_pdf = Returned
        [[\<lparr>field_name = Some ''Pt1Line2a_FamilyName[0]'', field_value = Some ''Smith''\<rparr>,
          \<lparr>field_name = Some ''Pt1Line2b_GivenName[0]'', field_value = Some ''Joe''\<rparr>,
          \<lparr>field_name = Some ''Line7_MobileTelephoneNumber[0]'', field_value = Some ''555 0100''\<rparr>,
          \<lparr>field_name = Some ''Line6_EMail[0]'', field_value = Some ''joe@example.com''\<rparr>]],
      gi_images = Raised, gi_pytesseract = False, gi_search = (\<lambda>p t. None)\<rparr>"

text \<open>
  Passport documents. On the first no strategy finds anything: the key of the LLM service
  is not set and the OCR engine raises. On the second the LLM service is not available,
  the page has no MRZ, and the OCR text of 80 characters holds a person's name. On the
  third the LLM service returns a record with a passport number.
\<close>

definition example_unreadable :: passport_input where
  "example_unreadable =
     \<lparr>use_llm = True, api_key = None, openai_installed = True, llm_image_prepared = True,
      llm_completion = Raised,
      images = Returned [\<lparr>ocr_mrz = Raised, ocr_plain = Raised\<rparr>],
      pytesseract_installed = True, mrz_installed = True,
      td3_checker = (\<lambda>lines. TD3_Raised), now_year = 2024,
      search = (\<lambda>p t. None), nlp = Spacy_model_missing,
      dateparser = (\<lambda>s. Raised)\<rparr>"

definition example_ocr_text :: string where
  "example_ocr_text =
     ''REPUBLIC OF UTOPIA PASSPORT of Maria Silva, born in the old city of Utopia, 1974''"

definition example_ocr_page :: page where
  "example_ocr_page = \<lparr>ocr_mrz = Returned ''UTOPIA'', ocr_plain = Returned example_ocr_text\<rparr>"

definition example_ocr_only :: passport_input where
  "example_ocr_only =
     \<lparr>use_llm = True, api_key = None, openai_installed = False, llm_image_prepared = False,
      llm_completion = Raised,
      images = Returned [example_ocr_page],
      pytesseract_installed = True, mrz_installed = True,
      td3_checker = (\<lambda>lines. TD3_Invalid), now_year = 2024,
      search = (\<lambda>p t. None),
      nlp = Spacy_loaded (\<lambda>t. Returned [''Maria Silva'']),
      dateparser = (\<lambda>s. Returned None)\<rparr>"

definition example_llm_record :: PassportData where
  "example_llm_record =
     empty_passport\<lparr>passport_number := Some ''L898902C3'', first_name := Some ''Anna''\<rparr>"

definition example_llm :: passport_input where
  "example_llm =
     \<lparr>use_llm = True, api_key = Some ''sk-test'', openai_installed = True,
      llm_image_prepared = True, llm_completion = Returned (Some example_llm_record),
      images = Raised, pytesseract_installed = False, mrz_installed = False,
      td3_checker = (\<lambda>lines. TD3_Raised), now_year = 2024,
      search = (\<lambda>p t. None), nlp = Spacy_import_error,
      dateparser = (\<lambda>s. Raised)\<rparr>"

text \<open>A stored passport record without a family name, and a beneficiary record.\<close>

definition example_existing :: PassportData where
  "example_existing =
     empty_passport\<lparr>first_name := Some ''Ana'', passport_number := Some ''L898902C3'',
                     extraction_method := Some ''MRZ'', confidence_score := Some 0.95\<rparr>"

definition example_beneficiary :: PassportData where
  "example_beneficiary =
     empty_passport\<lparr>last_name := Some ''Silva'', first_name := Some ''Maria'',
                     extraction_method := Some ''G28_BENEFICIARY'',
                     confidence_score := Some 0.5\<rparr>"

definition example_store :: store where
  "example_store =
     (\<lambda>k. None)(''s1'' \<mapsto> empty_form_data\<lparr>passport := Some example_existing\<rparr>)"

text \<open>A fillable G-28 with the family name only, rendered to a page on which OCR reads the
  family name only.\<close>

definition example_low_scores :: g28_input where
  "example_low_scores =
     \<lparr>gi_suffix = ''.pdf'',
      gi_pdf = Returned
        [[\<lparr>field_name = Some ''Pt1Line2a_FamilyName[0]'', field_value = Some ''Smith''\<rparr>]],
      gi_images = Returned [Returned ''Family Name: Smith''], gi_pytesseract = True,
      gi_search = (\<lambda>p t. if p = Pat_last_name then Some ''Smith'' else None)\<rparr>"

section \<open>Shared lemmas\<close>

lemma truthy_iff: "truthy x = (\<exists>y. x = Some y \<and> y \<noteq> [])"
  by (cases x) simp_all

lemma pdf_fields_returned:
  assumes "extract_pdf_form_fields pdf = (Some data, b)"
  obtains pages where "pdf = Returned pages"
    and "collect_form_fields (concat pages) [] \<noteq> []"
    and "data = (repair_mobile_email (attorney_of_fields (collect_form_fields (concat pages) [])))
           \<lparr>a_confidence_score := Some (calculate_confidence
              (repair_mobile_email (attorney_of_fields (collect_form_fields (concat pages) []))))\<rparr>"
    and "b = beneficiary_of_fields (collect_form_fields (concat pages) [])"
  using assms
  by (auto simp: extract_pdf_form_fields_def Let_def split: outcome.splits if_splits)

lemma g28_text_no_mobile: "a_mobile_phone (g28_extract_from_text srch t) = None"
  by (simp add: g28_extract_from_text_def infer_country_def empty_attorney_def)

lemma g28_extract_cases:
  obtains (pdf) fd b where "lower (gi_suffix inp) = ''.pdf''"
      "extract_pdf_form_fields (gi_pdf inp) = (Some fd, b)" "calculate_confidence fd > 0.3"
      "g28_extract inp = (fd\<lparr>a_extraction_method := Some ''PDF_FORM_FIELDS''\<rparr>, b)"
  | (ocr) "g28_pdf_strategy inp = None" "accumulate_text inp (g28_get_images inp) [] \<noteq> []"
      "g28_extract inp =
         ((g28_extract_from_text (gi_search inp) (accumulate_text inp (g28_get_images inp) []))
            \<lparr>a_extraction_method := Some ''OCR+NLP'',
             a_confidence_score := Some (calculate_confidence
               (g28_extract_from_text (gi_search inp) (accumulate_text inp (g28_get_images inp) [])))\<rparr>,
          None)"
  | (failed) "g28_pdf_strategy inp = None" "accumulate_text inp (g28_get_images inp) [] = []"
      "g28_extract inp = (failed_attorney, None)"
proof (cases "g28_pdf_strategy inp")
  case None
  show ?thesis
  proof (cases "accumulate_text inp (g28_get_images inp) [] = []")
    case True
    with None show ?thesis using failed by (simp add: g28_extract_def g28_ocr_fallback_def)
  next
    case False
    with None show ?thesis using ocr by (simp add: g28_extract_def g28_ocr_fallback_def Let_def)
  qed
next
  case (Some r)
  then show ?thesis using pdf
    by (auto simp: g28_extract_def g28_pdf_strategy_def split: if_splits prod.splits option.splits)
qed

lemma llm_extract_provenance:
  "llm_extract inp = Some r \<Longrightarrow>
     extraction_method r = Some ''LLM_OPENAI'' \<and> confidence_score r = Some 0.95"
  by (auto simp: llm_extract_def split: if_splits outcome.splits option.splits)

lemma llm_strategy_Some:
  "llm_strategy inp = Some r \<Longrightarrow>
     llm_extract inp = Some r \<and> use_llm inp \<and> is_llm_available inp
     \<and> (truthy (passport_number r) \<or> truthy (last_name r))"
  by (auto simp: llm_strategy_def split: if_splits option.splits)

lemma passport_extract_cases:
  obtains (llm) r where "llm_strategy inp = Some r" "passport_extract inp = r"
  | (mrz) m where "llm_strategy inp = None" "extract_mrz inp (get_images inp) = Some m"
      "truthy (passport_number m)"
      "passport_extract inp = m\<lparr>extraction_method := Some ''MRZ'', confidence_score := Some 0.95\<rparr>"
  | (ocr) d where "llm_strategy inp = None"
      "case extract_mrz inp (get_images inp) of None \<Rightarrow> True | Some m \<Rightarrow> \<not> truthy (passport_number m)"
      "extract_via_ocr inp (get_images inp) = Some d"
      "passport_extract inp = d\<lparr>extraction_method := Some ''OCR+NLP'', confidence_score := Some 0.7\<rparr>"
  | (failed) "llm_strategy inp = None"
      "case extract_mrz inp (get_images inp) of None \<Rightarrow> True | Some m \<Rightarrow> \<not> truthy (passport_number m)"
      "extract_via_ocr inp (get_images inp) = None"
      "passport_extract inp = failed_passport"
proof (cases "llm_strategy inp")
  case (Some r)
  then show ?thesis using llm by (simp add: passport_extract_def)
next
  case None
  note n = None
  show ?thesis
  proof (cases "extract_mrz inp (get_images inp)")
    case None
    show ?thesis
    proof (cases "extract_via_ocr inp (get_images inp)")
      case (Some d)
      then show ?thesis using n None ocr[of d]
        by (simp add: passport_extract_def extract_without_llm_def Let_def)
    next
      case N2: None
      then show ?thesis using n None failed
        by (simp add: passport_extract_def extract_without_llm_def Let_def)
    qed
  next
    case (Some m)
    show ?thesis
    proof (cases "truthy (passport_number m)")
      case True
      then show ?thesis using n Some mrz[of m]
        by (simp add: passport_extract_def extract_without_llm_def Let_def)
    next
      case False
      show ?thesis
      proof (cases "extract_via_ocr inp (get_images inp)")
        case S2: (Some d)
        then show ?thesis using n Some False ocr[of d]
          by (simp add: passport_extract_def extract_without_llm_def Let_def)
      next
        case N2: None
        then show ?thesis using n Some False failed
          by (simp add: passport_extract_def extract_without_llm_def Let_def)
      qed
    qed
  qed
qed

lemma passport_extract_provenance:
  "extraction_method (passport_extract inp) \<noteq> None \<and> confidence_score (passport_extract inp) \<noteq> None"
proof (cases inp rule: passport_extract_cases)
  case (llm r)
  then show ?thesis using llm_extract_provenance[of inp r] llm_strategy_Some[of inp r] by simp
next
  case (mrz m)
  then show ?thesis by simp
next
  case (ocr d)
  then show ?thesis by simp
next
  case failed
  then show ?thesis by (simp add: failed_passport_def)
qed

lemma beneficiary_provenance:
  "beneficiary_of_fields ff = Some b \<Longrightarrow>
     extraction_method b = Some ''G28_BENEFICIARY'' \<and> confidence_score b = Some 0.5
     \<and> (truthy (last_name b) \<or> truthy (first_name b))"
  by (auto simp: beneficiary_of_fields_def Let_def split: if_splits)

lemma g28_extract_provenance:
  "a_extraction_method (fst (g28_extract inp)) \<noteq> None
   \<and> a_confidence_score (fst (g28_extract inp)) \<noteq> None"
proof (cases inp rule: g28_extract_cases)
  case (pdf fd b)
  from pdf(2) obtain pages where
    "fd = (repair_mobile_email (attorney_of_fields (collect_form_fields (concat pages) [])))
           \<lparr>a_confidence_score := Some (calculate_confidence
              (repair_mobile_email (attorney_of_fields (collect_form_fields (concat pages) []))))\<rparr>"
    by (rule pdf_fields_returned)
  then have "a_confidence_score fd \<noteq> None" by simp
  with pdf show ?thesis by simp
next
  case ocr
  then show ?thesis by simp
next
  case failed
  then show ?thesis by (simp add: failed_attorney_def)
qed

lemma g28_beneficiary_provenance:
  assumes "snd (g28_extract inp) = Some b"
  shows "extraction_method b = Some ''G28_BENEFICIARY'' \<and> confidence_score b = Some 0.5"
proof (cases inp rule: g28_extract_cases)
  case (pdf fd b')
  from pdf(2) obtain pages where "b' = beneficiary_of_fields (collect_form_fields (concat pages) [])"
    by (rule pdf_fields_returned)
  with pdf assms show ?thesis using beneficiary_provenance by simp
next
  case ocr
  with assms show ?thesis by simp
next
  case failed
  with assms show ?thesis by simp
qed

section \<open>Properties of the MRZ line locator\<close>

lemma mrz_alpha_not_newline: "mrz_alpha c \<Longrightarrow> c \<noteq> newline"
  by (auto simp: mrz_alpha_def newline_def is_upper_az_def is_digit_def filler_def cp_def)

lemma mrz_alpha_not_space: "mrz_alpha c \<Longrightarrow> c \<noteq> CHR '' '' \<and> c \<noteq> CHR 0xAB"
  by (auto simp: mrz_alpha_def is_upper_az_def is_digit_def filler_def cp_def)

lemma mrz_alpha_upper: "mrz_alpha c \<Longrightarrow> upper_chars c = [c]"
  by (auto simp: mrz_alpha_def upper_chars_def upper_char_def is_lower_az_def is_upper_az_def
      is_digit_def filler_def cp_def)

lemma mrz_alpha_filler: "mrz_alpha filler"
  by (simp add: mrz_alpha_def)

lemma clean_line_alpha: "list_all mrz_alpha (clean_line line)"
  by (simp add: clean_line_def list_all_iff)

lemma clean_line_id: "list_all mrz_alpha s \<Longrightarrow> clean_line s = s"
  by (induction s) (auto simp: clean_line_def mrz_alpha_not_space)

lemma upper_id: "list_all mrz_alpha s \<Longrightarrow> upper s = s"
  by (induction s) (auto simp: upper_def mrz_alpha_upper)

lemma mrz_pattern_match_alpha:
  "list_all mrz_alpha s \<Longrightarrow> mrz_pattern_match s = (40 \<le> length s \<and> length s \<le> 50)"
proof -
  assume a: "list_all mrz_alpha s"
  have "s \<noteq> [] \<Longrightarrow> last s \<noteq> newline"
    using a mrz_alpha_not_newline by (metis last_in_set list_all_iff)
  then show ?thesis using a by (auto simp: mrz_pattern_match_def Let_def)
qed

lemma length_normalize_line: "length (normalize_line s) = 44"
  by (simp add: normalize_line_def)

lemma normalize_line_alpha: "list_all mrz_alpha s \<Longrightarrow> list_all mrz_alpha (normalize_line s)"
  by (auto simp: normalize_line_def list_all_iff mrz_alpha_filler dest: in_set_takeD)

lemma normalize_line_44: "length s = 44 \<Longrightarrow> normalize_line s = s"
  by (simp add: normalize_line_def)

lemma mrz_candidate_Some:
  "mrz_candidate line = Some c \<longleftrightarrow>
     (42 \<le> length (clean_line line) \<and> length (clean_line line) \<le> 46 \<and> c = normalize_line (clean_line line))"
  by (auto simp: mrz_candidate_def Let_def mrz_pattern_match_alpha clean_line_alpha)

lemma mrz_candidate_fixed:
  assumes "mrz_candidate line = Some c"
  shows "mrz_candidate c = Some c"
proof -
  have c: "c = normalize_line (clean_line line)" using assms by (simp add: mrz_candidate_Some)
  have a: "list_all mrz_alpha c" unfolding c by (rule normalize_line_alpha[OF clean_line_alpha])
  have l: "length c = 44" unfolding c by (rule length_normalize_line)
  show ?thesis
    by (simp add: mrz_candidate_Some clean_line_id[OF a] l normalize_line_44)
qed

lemma split_on_no_sep: "sep \<notin> set s \<Longrightarrow> split_on sep s = [s]"
  by (induction s) auto

lemma split_on_append: "sep \<notin> set a \<Longrightarrow> split_on sep (a @ sep # b) = a # split_on sep b"
  by (induction a) auto

lemma alpha_no_newline: "list_all mrz_alpha s \<Longrightarrow> newline \<notin> set s"
  using mrz_alpha_not_newline by (auto simp: list_all_iff)

lemma upper_newline: "upper_chars newline = [newline]"
  by (simp add: upper_chars_def upper_char_def is_lower_az_def newline_def cp_def)

lemma upper_pair:
  "list_all mrz_alpha a \<Longrightarrow> list_all mrz_alpha b \<Longrightarrow> upper (a @ newline # b) = a @ newline # b"
  using upper_id[of a] upper_id[of b] by (simp add: upper_def upper_newline)

lemma mrz_candidates_elem:
  assumes "c \<in> set (mrz_candidates ocr)"
  shows "length c = 44 \<and> list_all mrz_alpha c \<and> mrz_candidate c = Some c"
proof -
  from assms obtain line where l: "mrz_candidate line = Some c"
    by (auto simp: mrz_candidates_def List.map_filter_def)
  then have c: "c = normalize_line (clean_line line)" by (simp add: mrz_candidate_Some)
  show ?thesis using l mrz_candidate_fixed[OF l]
    by (simp add: c length_normalize_line normalize_line_alpha clean_line_alpha)
qed

lemma mrz_candidates_pair:
  assumes "mrz_candidate a = Some a" "mrz_candidate b = Some b"
    "list_all mrz_alpha a" "list_all mrz_alpha b"
  shows "mrz_candidates (a @ newline # b) = [a, b]"
proof -
  have "split_on newline (a @ newline # b) = [a, b]"
    by (simp add: split_on_append split_on_no_sep alpha_no_newline assms(3,4))
  then show ?thesis
    by (simp add: mrz_candidates_def upper_pair assms List.map_filter_simps)
qed

lemma find_mrz_lines_Some:
  assumes "find_mrz_lines ocr = Some (a, b)"
  shows "a \<in> set (mrz_candidates ocr) \<and> b \<in> set (mrz_candidates ocr)"
proof -
  from assms have l: "2 \<le> length (mrz_candidates ocr)"
    by (simp add: find_mrz_lines_def Let_def split: if_splits)
  with assms have ab: "a = mrz_candidates ocr ! 0" "b = mrz_candidates ocr ! 1"
    by (simp_all add: find_mrz_lines_def Let_def)
  from l have "0 < length (mrz_candidates ocr)" "1 < length (mrz_candidates ocr)" by linarith+
  then show ?thesis unfolding ab using nth_mem by blast
qed

lemma find_mrz_lines_roundtrip:
  assumes "find_mrz_lines ocr = Some (a, b)"
  shows "find_mrz_lines (a @ newline # b) = Some (a, b)"
proof -
  note m = find_mrz_lines_Some[OF assms]
  have a: "mrz_candidate a = Some a" "list_all mrz_alpha a"
    using mrz_candidates_elem[of a ocr] m by simp_all
  have b: "mrz_candidate b = Some b" "list_all mrz_alpha b"
    using mrz_candidates_elem[of b ocr] m by simp_all
  show ?thesis
    by (simp add: find_mrz_lines_def mrz_candidates_pair[OF a(1) b(1) a(2) b(2)])
qed

lemma normalize_line_idem: "normalize_line (normalize_line s) = normalize_line s"
  by (simp add: normalize_line_44 length_normalize_line)

text \<open>
  Claim C7. A line is a candidate exactly when its cleaned form has between 42 and 46
  characters (all of the MRZ alphabet, by the cleaning); the candidate is the cleaned line
  padded on the right with the filler, or truncated, to exactly 44 characters. The
  normalisation is idempotent and leaves a line of 44 characters unchanged, and a candidate
  given back to the scan is returned as it is. Every collected candidate has 44
  characters; with fewer than two candidates no MRZ is found; and the pair that is found
  is found again, unchanged, in the text made of its two lines.
\<close>

theorem mrz_normalization:
  "(mrz_candidate line = Some c \<longrightarrow>
      42 \<le> length (clean_line line) \<and> length (clean_line line) \<le> 46
      \<and> list_all mrz_alpha (clean_line line)
      \<and> c = (if length (clean_line line) < 44
              then clean_line line @ replicate (44 - length (clean_line line)) filler
              else take 44 (clean_line line))
      \<and> length c = 44 \<and> normalize_line c = c \<and> mrz_candidate c = Some c)
   \<and> (42 \<le> length (clean_line line) \<and> length (clean_line line) \<le> 46 \<longrightarrow>
        mrz_candidate line = Some (normalize_line (clean_line line)))
   \<and> normalize_line (normalize_line s) = normalize_line s
   \<and> (length s = 44 \<longrightarrow> normalize_line s = s)
   \<and> (\<forall>k \<in> set (mrz_candidates ocr). length k = 44)
   \<and> (length (mrz_candidates ocr) < 2 \<longrightarrow> find_mrz_lines ocr = None)
   \<and> (find_mrz_lines ocr = Some (a, b) \<longrightarrow> find_mrz_lines (a @ newline # b) = Some (a, b))"
proof (intro conjI impI ballI)
  assume l: "mrz_candidate line = Some c"
  then have c: "c = normalize_line (clean_line line)"
    and r: "42 \<le> length (clean_line line)" "length (clean_line line) \<le> 46"
    by (simp_all add: mrz_candidate_Some)
  show "42 \<le> length (clean_line line)" "length (clean_line line) \<le> 46" by fact+
  show "list_all mrz_alpha (clean_line line)" by (rule clean_line_alpha)
  show "c = (if length (clean_line line) < 44
              then clean_line line @ replicate (44 - length (clean_line line)) filler
              else take 44 (clean_line line))"
    unfolding c by (simp add: normalize_line_def)
  show "length c = 44" unfolding c by (rule length_normalize_line)
  then show "normalize_line c = c" by (rule normalize_line_44)
  show "mrz_candidate c = Some c" by (rule mrz_candidate_fixed[OF l])
next
  assume "42 \<le> length (clean_line line) \<and> length (clean_line line) \<le> 46"
  then show "mrz_candidate line = Some (normalize_line (clean_line line))"
    by (simp add: mrz_candidate_Some)
next
  show "normalize_line (normalize_line s) = normalize_line s" by (rule normalize_line_idem)
next
  assume "length s = 44"
  then show "normalize_line s = s" by (rule normalize_line_44)
next
  fix k assume "k \<in> set (mrz_candidates ocr)"
  then show "length k = 44" using mrz_candidates_elem by blast
next
  assume "length (mrz_candidates ocr) < 2"
  then show "find_mrz_lines ocr = None" by (simp add: find_mrz_lines_def)
next
  assume "find_mrz_lines ocr = Some (a, b)"
  then show "find_mrz_lines (a @ newline # b) = Some (a, b)" by (rule find_mrz_lines_roundtrip)
qed

text \<open>
  The theorem on an example page: the name line of 42 characters is padded to 44, the
  line of noise is no candidate, the number line of 46 characters is truncated, and the
  pair found is a fixed point of the scan.
\<close>

theorem mrz_normalization_witness:
  "mrz_candidate ''P<UTOERIKSSON<<ANNA <MARIA<<<<<<<<<<<<<<<<<'' = Some example_mrz_line1
   \<and> length example_mrz_line1 = 44
   \<and> normalize_line example_mrz_line1 = example_mrz_line1
   \<and> mrz_candidate example_mrz_line1 = Some example_mrz_line1
   \<and> length (mrz_candidates ''PASSPORT'') < 2 \<and> find_mrz_lines ''PASSPORT'' = None
   \<and> find_mrz_lines example_mrz_text = Some (example_mrz_line1, example_mrz_line2)
   \<and> find_mrz_lines (example_mrz_line1 @ newline # example_mrz_line2)
       = Some (example_mrz_line1, example_mrz_line2)"
proof -
  note inst1 = mrz_normalization[of "''P<UTOERIKSSON<<ANNA <MARIA<<<<<<<<<<<<<<<<<''"
      example_mrz_line1 "[]" "''PASSPORT''" example_mrz_line1 example_mrz_line2]
  note inst2 = mrz_normalization[of "[]" "[]" "[]" example_mrz_text example_mrz_line1 example_mrz_line2]
  have h1: "mrz_candidate ''P<UTOERIKSSON<<ANNA <MARIA<<<<<<<<<<<<<<<<<'' = Some example_mrz_line1"
    by code_simp
  have h2: "length (mrz_candidates ''PASSPORT'') < 2" by code_simp
  have h3: "find_mrz_lines example_mrz_text = Some (example_mrz_line1, example_mrz_line2)"
    by code_simp
  from inst1 h1 have r1: "length example_mrz_line1 = 44
      \<and> normalize_line example_mrz_line1 = example_mrz_line1
      \<and> mrz_candidate example_mrz_line1 = Some example_mrz_line1" by blast
  from inst1 h2 have r2: "find_mrz_lines ''PASSPORT'' = None" by blast
  from inst2 h3 have r3: "find_mrz_lines (example_mrz_line1 @ newline # example_mrz_line2)
       = Some (example_mrz_line1, example_mrz_line2)" by blast
  show ?thesis using h1 h2 h3 r1 r2 r3 by blast
qed

section \<open>Properties of the MRZ date parser\<close>

lemma digit_not_space: "is_digit c \<Longrightarrow> \<not> is_int_space c"
  by (auto simp: is_digit_def is_int_space_def)

lemma digit_not_sign: "is_digit c \<Longrightarrow> c \<noteq> CHR ''+'' \<and> c \<noteq> CHR ''-'' \<and> c \<noteq> CHR ''_''"
  by (auto simp: is_digit_def cp_def)

lemma mrz_alpha_plain:
  "mrz_alpha c \<Longrightarrow> \<not> is_int_space c \<and> c \<noteq> CHR ''+'' \<and> c \<noteq> CHR ''-''"
  by (auto simp: mrz_alpha_def is_upper_az_def is_digit_def filler_def is_int_space_def cp_def)

lemma digit_val_lt: "is_digit c \<Longrightarrow> digit_val c < 10"
  by (auto simp: is_digit_def digit_val_def)

lemma char_of_digit_val: "is_digit c \<Longrightarrow> char_of (48 + digit_val c) = c"
  by (simp add: is_digit_def digit_val_def cp_def)

lemma int_strip_two:
  "\<not> is_int_space a \<Longrightarrow> \<not> is_int_space b \<Longrightarrow>
     rev (dropWhile is_int_space (rev (dropWhile is_int_space [a, b]))) = [a, b]"
  by simp

lemma digits_val_two:
  "digits_val 0 [a, b] =
     (if is_digit a \<and> is_digit b then Some (digit_val a * 10 + digit_val b) else None)"
  by (auto simp: digit_not_sign)

lemma py_int_two:
  assumes "\<not> is_int_space a" "\<not> is_int_space b"
    "a \<noteq> CHR ''+''" "a \<noteq> CHR ''-''"
  shows "py_int [a, b] =
    (if is_digit a \<and> is_digit b then Some (int (digit_val a * 10 + digit_val b)) else None)"
  unfolding py_int_def int_strip_two[OF assms(1,2)] using assms(3,4)
  by (simp only: list.case if_False digits_val_two) simp

lemma py_int_two_digits:
  "is_digit a \<Longrightarrow> is_digit b \<Longrightarrow> py_int [a, b] = Some (int (digit_val a * 10 + digit_val b))"
  using py_int_two[of a b] by (simp add: digit_not_space digit_not_sign)

lemma nat_digits_small: "n < 10 \<Longrightarrow> nat_digits n = [char_of (48 + n)]"
  by (simp add: nat_digits.simps)

lemma nat_digits_two: "x < 10 \<Longrightarrow> y < 10 \<Longrightarrow> 0 < x \<Longrightarrow> nat_digits (x * 10 + y) = [char_of (48 + x), char_of (48 + y)]"
  by (subst nat_digits.simps) (simp add: nat_digits_small)

lemma c48: "char_of (48::nat) = CHR ''0''"
  by code_simp

lemma fmt_0d_nat: "fmt_0d w (int n) = replicate (w - length (nat_digits n)) CHR ''0'' @ nat_digits n"
  by (simp add: fmt_0d_def Let_def)

lemma fmt_two_digits:
  assumes "is_digit a" "is_digit b"
  shows "fmt_0d 2 (int (digit_val a * 10 + digit_val b)) = [a, b]"
proof (cases "digit_val a = 0")
  case True
  have "char_of (48 + digit_val a) = a" using assms(1) by (rule char_of_digit_val)
  with True have a: "a = CHR ''0''" by (simp add: c48)
  show ?thesis using True a assms(2)
    by (simp only: fmt_0d_nat) (simp add: nat_digits_small digit_val_lt char_of_digit_val)
next
  case False
  then show ?thesis using assms
    by (simp only: fmt_0d_nat) (simp add: nat_digits_two digit_val_lt char_of_digit_val)
qed

lemma length_nat_digits_small: "n < 10 \<Longrightarrow> length (nat_digits n) = 1"
  by (subst nat_digits.simps) simp

lemma length_nat_digits_step:
  "10 \<le> n \<Longrightarrow> length (nat_digits n) = Suc (length (nat_digits (n div 10)))"
  by (subst nat_digits.simps) simp

lemma length_nat_digits_4:
  assumes "1000 \<le> n" "n < 10000"
  shows "length (nat_digits n) = 4"
proof -
  have a: "10 \<le> n" "10 \<le> n div 10" "10 \<le> n div 10 div 10" "n div 10 div 10 div 10 < 10"
    using assms by arith+
  show ?thesis
    by (simp only: length_nat_digits_step[OF a(1)] length_nat_digits_step[OF a(2)]
        length_nat_digits_step[OF a(3)] length_nat_digits_small[OF a(4)])
qed

lemma nat_digits_all_digits: "list_all is_digit (nat_digits n)"
proof (induction n rule: nat_digits.induct)
  case (1 n)
  have d: "\<And>k::nat. k < 10 \<Longrightarrow> is_digit (char_of (48 + k))"
    by (simp add: is_digit_def cp_def)
  show ?case
  proof (cases "n < 10")
    case True
    then show ?thesis by (simp add: nat_digits_small d)
  next
    case False
    then show ?thesis using 1 by (subst nat_digits.simps) (simp add: d)
  qed
qed


lemma six_digits_parts:
  assumes "length s = 6" "list_all is_digit s"
  obtains a b c d e f where "s = [a, b, c, d, e, f]" "is_digit a" "is_digit b" "is_digit c" "is_digit d" "is_digit e" "is_digit f"
proof -
  from assms(1) have "length s = Suc (Suc (Suc (Suc (Suc (Suc 0)))))" by simp
  then obtain a b c d e f where s: "s = [a, b, c, d, e, f]"
    by (auto simp: length_Suc_conv)
  with assms(2) show ?thesis using that by simp
qed

lemma fmt_year_shape:
  assumes "0 \<le> yy" "yy < 100"
  shows "length (fmt_0d 4 (1900 + yy)) = 4 \<and> list_all is_digit (fmt_0d 4 (1900 + yy)) \<and>
         length (fmt_0d 4 (2000 + yy)) = 4 \<and> list_all is_digit (fmt_0d 4 (2000 + yy))"
proof -
  define n where "n = nat yy"
  have n: "yy = int n" "n < 100" using assms by (simp_all add: n_def)
  have a: "1900 + yy = int (1900 + n)" "2000 + yy = int (2000 + n)" using n by simp_all
  show ?thesis unfolding a fmt_0d_nat using n(2)
    by (simp add: length_nat_digits_4 nat_digits_all_digits)
qed

text \<open>Only the first six characters are read.\<close>

lemma parse_mrz_date_take6:
  "6 \<le> length s \<Longrightarrow> parse_mrz_date this_year s = parse_mrz_date this_year (take 6 s)"
proof -
  assume l: "6 \<le> length s"
  have a: "take 2 (take 6 s) = take 2 s" "take 2 (drop 2 (take 6 s)) = take 2 (drop 2 s)"
    "take 2 (drop 4 (take 6 s)) = take 2 (drop 4 s)"
    by (simp_all add: drop_take)
  have b: "s \<noteq> []" "take 6 s \<noteq> []" "length (take 6 s) = 6" using l by auto
  show ?thesis unfolding parse_mrz_date_def a using l b by simp
qed

lemma six_parts:
  assumes "length s = 6"
  obtains a b c d e f where "s = [a, b, c, d, e, f]"
proof -
  from assms have "length s = Suc (Suc (Suc (Suc (Suc (Suc 0)))))" by simp
  then obtain a b c d e f where "s = [a, b, c, d, e, f]"
    by (auto simp: length_Suc_conv)
  then show ?thesis using that by simp
qed

text \<open>
  A slice is rejected by \<open>int\<close> as soon as one of its two characters is not a digit,
  unless a sign or a blank stands in it: six characters without sign and blank that are
  not six digits give \<open>None\<close>.
\<close>

lemma parse_mrz_date_non_digit:
  assumes "length s = 6" "\<not> list_all is_digit s"
    and "\<forall>c\<in>set s. \<not> is_int_space c \<and> c \<noteq> CHR ''+'' \<and> c \<noteq> CHR ''-''"
  shows "parse_mrz_date this_year s = None"
proof -
  from assms(1) obtain a b c d e f where s: "s = [a, b, c, d, e, f]" by (rule six_parts)
  have p: "\<not> is_int_space a" "\<not> is_int_space b" "\<not> is_int_space c" "\<not> is_int_space d"
    "\<not> is_int_space e" "\<not> is_int_space f"
    "a \<noteq> CHR ''+''" "a \<noteq> CHR ''-''" "c \<noteq> CHR ''+''" "c \<noteq> CHR ''-''"
    "e \<noteq> CHR ''+''" "e \<noteq> CHR ''-''"
    using assms(3) unfolding s by simp_all
  have i: "py_int [a, b] =
      (if is_digit a \<and> is_digit b then Some (int (digit_val a * 10 + digit_val b)) else None)"
    "py_int [c, d] =
      (if is_digit c \<and> is_digit d then Some (int (digit_val c * 10 + digit_val d)) else None)"
    "py_int [e, f] =
      (if is_digit e \<and> is_digit f then Some (int (digit_val e * 10 + digit_val f)) else None)"
    by (rule py_int_two; fact)+
  have t: "take 2 s = [a, b]" "take 2 (drop 2 s) = [c, d]" "take 2 (drop 4 s) = [e, f]"
    unfolding s by simp_all
  from assms(2) consider (year) "\<not> (is_digit a \<and> is_digit b)"
    | (month) "\<not> (is_digit c \<and> is_digit d)" | (day) "\<not> (is_digit e \<and> is_digit f)"
    unfolding s by auto
  then show ?thesis
  proof cases
    case year
    then have "py_int (take 2 s) = None" unfolding t i by simp
    then show ?thesis by (simp add: parse_mrz_date_def)
  next
    case month
    then have "py_int (take 2 (drop 2 s)) = None" unfolding t i by simp
    then show ?thesis by (simp add: parse_mrz_date_def split: option.splits)
  next
    case day
    then have "py_int (take 2 (drop 4 s)) = None" unfolding t i by simp
    then show ?thesis by (simp add: parse_mrz_date_def split: option.splits)
  qed
qed

text \<open>
  \<open>_parse_mrz_date\<close> is called by \<open>_parse_mrz_fields\<close> only, on the two date fields that the
  TD3 checker cuts out of the pair of lines found by \<open>_find_mrz_lines\<close>. These lines are
  over the MRZ alphabet.
\<close>

lemma find_mrz_lines_alphabet:
  assumes "find_mrz_lines ocr = Some (a, b)"
  shows "list_all mrz_alpha a \<and> list_all mrz_alpha b"
  using find_mrz_lines_Some[OF assms] mrz_candidates_elem[of a ocr] mrz_candidates_elem[of b ocr]
  by simp

lemma parse_six_digits:
  assumes dg: "is_digit a" "is_digit b" "is_digit c" "is_digit d" "is_digit e" "is_digit f"
  shows "parse_mrz_date this_year [a, b, c, d, e, f] =
      Some (fmt_0d 4 (if int (digit_val a * 10 + digit_val b) > this_year mod 100 + 10
                      then 1900 + int (digit_val a * 10 + digit_val b)
                      else 2000 + int (digit_val a * 10 + digit_val b))
            @ ''-'' @ [c, d] @ ''-'' @ [e, f])"
proof -
  let ?s = "[a, b, c, d, e, f]"
  have t: "take 2 ?s = [a, b]" "take 2 (drop 2 ?s) = [c, d]" "take 2 (drop 4 ?s) = [e, f]"
    by simp_all
  have i: "py_int (take 2 ?s) = Some (int (digit_val a * 10 + digit_val b))"
    "py_int (take 2 (drop 2 ?s)) = Some (int (digit_val c * 10 + digit_val d))"
    "py_int (take 2 (drop 4 ?s)) = Some (int (digit_val e * 10 + digit_val f))"
    unfolding t by (rule py_int_two_digits; fact)+
  show ?thesis
    unfolding parse_mrz_date_def i
    by (simp add: Let_def fmt_two_digits dg del: of_nat_add of_nat_mult)
qed

lemma parse_mrz_date_digits:
  "length s = 6 \<and> list_all is_digit s \<longrightarrow>
      (let yy = int (digit_val (s ! 0) * 10 + digit_val (s ! 1));
           pivot = this_year mod 100;
           year = (if yy > pivot + 10 then 1900 + yy else 2000 + yy)
       in parse_mrz_date this_year s =
            Some (fmt_0d 4 year @ ''-'' @ take 2 (drop 2 s) @ ''-'' @ drop 4 s)
          \<and> length (fmt_0d 4 year) = 4 \<and> list_all is_digit (fmt_0d 4 year))"
proof
  assume "length s = 6 \<and> list_all is_digit s"
  then obtain a b c d e f where s: "s = [a, b, c, d, e, f]"
    and dg: "is_digit a" "is_digit b" "is_digit c" "is_digit d" "is_digit e" "is_digit f"
    by (metis six_digits_parts)
  let ?yy = "int (digit_val a * 10 + digit_val b)"
  have yy: "0 \<le> ?yy" "?yy < 100" using digit_val_lt[OF dg(1)] digit_val_lt[OF dg(2)] by simp_all
  have t: "take 2 (drop 2 s) = [c, d]" "s ! 0 = a" "s ! 1 = b" "drop 4 s = [e, f]"
    unfolding s by simp_all
  note p = parse_six_digits[OF dg, of this_year]
  show "let yy = int (digit_val (s ! 0) * 10 + digit_val (s ! 1));
           pivot = this_year mod 100;
           year = (if yy > pivot + 10 then 1900 + yy else 2000 + yy)
       in parse_mrz_date this_year s =
            Some (fmt_0d 4 year @ ''-'' @ take 2 (drop 2 s) @ ''-'' @ drop 4 s)
          \<and> length (fmt_0d 4 year) = 4 \<and> list_all is_digit (fmt_0d 4 year)"
    unfolding Let_def t using p fmt_year_shape[OF yy] unfolding s
    by (simp del: of_nat_add of_nat_mult)
qed

lemma parse_mrz_date_digits_set:
  assumes "length s = 6" "list_all is_digit s"
  shows "parse_mrz_date this_year s \<noteq> None"
proof -
  from assms obtain a b c d e f where s: "s = [a, b, c, d, e, f]"
    and dg: "is_digit a" "is_digit b" "is_digit c" "is_digit d" "is_digit e" "is_digit f"
    by (metis six_digits_parts)
  show ?thesis unfolding s parse_six_digits[OF dg] by (rule option.distinct(2))
qed

lemma parse_mrz_date_short: "length s < 6 \<longrightarrow> parse_mrz_date this_year s = None"
  by (simp add: parse_mrz_date_def)

lemma parse_mrz_date_alpha_non_digit:
  "list_all mrz_alpha s \<and> 6 \<le> length s \<and> \<not> list_all is_digit (take 6 s) \<longrightarrow>
        parse_mrz_date this_year s = None"
proof
  assume a: "list_all mrz_alpha s \<and> 6 \<le> length s \<and> \<not> list_all is_digit (take 6 s)"
  then have l: "length (take 6 s) = 6" by simp
  from a have "\<forall>c\<in>set (take 6 s). mrz_alpha c"
    by (auto simp: list_all_iff dest: in_set_takeD)
  then have pl: "\<forall>c\<in>set (take 6 s). \<not> is_int_space c \<and> c \<noteq> CHR ''+'' \<and> c \<noteq> CHR ''-''"
    using mrz_alpha_plain by blast
  from a have n: "\<not> list_all is_digit (take 6 s)" by simp
  have "parse_mrz_date this_year (take 6 s) = None"
    by (rule parse_mrz_date_non_digit[OF l n pl])
  moreover from a have "parse_mrz_date this_year s = parse_mrz_date this_year (take 6 s)"
    by (simp only: parse_mrz_date_take6)
  ultimately show "parse_mrz_date this_year s = None" by simp
qed

lemma parse_mrz_date_alpha_iff:
  "list_all mrz_alpha s \<longrightarrow>
        (parse_mrz_date this_year s \<noteq> None) = (6 \<le> length s \<and> list_all is_digit (take 6 s))"
proof
  assume a: "list_all mrz_alpha s"
  show "(parse_mrz_date this_year s \<noteq> None) = (6 \<le> length s \<and> list_all is_digit (take 6 s))"
  proof (cases "6 \<le> length s")
    case False
    then have "parse_mrz_date this_year s = None" by (simp add: parse_mrz_date_def)
    with False show ?thesis by simp
  next
    case True
    have e: "parse_mrz_date this_year s = parse_mrz_date this_year (take 6 s)"
      using True by (rule parse_mrz_date_take6)
    show ?thesis
    proof (cases "list_all is_digit (take 6 s)")
      case False
      with a True have "parse_mrz_date this_year s = None"
        using parse_mrz_date_alpha_non_digit[of s this_year] by blast
      with False show ?thesis by simp
    next
      case d: True
      from True have "length (take 6 s) = 6" by simp
      then have "parse_mrz_date this_year (take 6 s) \<noteq> None"
        using d by (rule parse_mrz_date_digits_set)
      with e True d show ?thesis by simp
    qed
  qed
qed

text \<open>
  Claim C4. For a string of six digits \<open>YYMMDD\<close>, with \<open>pivot = currentYear mod 100\<close>, the
  year is \<open>1900 + yy\<close> when \<open>yy > pivot + 10\<close> and \<open>2000 + yy\<close> otherwise (so
  \<open>yy = pivot + 10\<close> is read in the 2000s), and the result is the four digits of the year,
  a hyphen, the two month digits, a hyphen and the two day digits. A string shorter than
  six characters gives \<open>None\<close>. On the strings over the MRZ alphabet, which are the ones
  the date fields of an MRZ consist of, a string whose year, month or day slice holds a
  character that is not a digit gives \<open>None\<close>, so there the result is set exactly when
  the first six characters are digits. The function is total: it returns a value and
  never raises.
\<close>

theorem parse_mrz_date_policy:
  "(length s = 6 \<and> list_all is_digit s \<longrightarrow>
      (let yy = int (digit_val (s ! 0) * 10 + digit_val (s ! 1));
           pivot = this_year mod 100;
           year = (if yy > pivot + 10 then 1900 + yy else 2000 + yy)
       in parse_mrz_date this_year s =
            Some (fmt_0d 4 year @ ''-'' @ take 2 (drop 2 s) @ ''-'' @ drop 4 s)
          \<and> length (fmt_0d 4 year) = 4 \<and> list_all is_digit (fmt_0d 4 year)))
   \<and> (length s < 6 \<longrightarrow> parse_mrz_date this_year s = None)
   \<and> (list_all mrz_alpha s \<and> 6 \<le> length s \<and> \<not> list_all is_digit (take 6 s) \<longrightarrow>
        parse_mrz_date this_year s = None)
   \<and> (list_all mrz_alpha s \<longrightarrow>
        (parse_mrz_date this_year s \<noteq> None) = (6 \<le> length s \<and> list_all is_digit (take 6 s)))"
  by (intro conjI parse_mrz_date_digits parse_mrz_date_short parse_mrz_date_alpha_non_digit
      parse_mrz_date_alpha_iff)

text \<open>
  The theorem at concrete dates in the year 2024 (pivot 24): \<open>yy = 34\<close> is the boundary
  and stays in the 2000s, \<open>yy = 35\<close> is read as 1935; a string of four digits and a
  string with a letter in the year give \<open>None\<close>.
\<close>

theorem parse_mrz_date_policy_witness:
  "(length ''340101'' = 6 \<and> list_all is_digit ''340101'')
   \<and> parse_mrz_date 2024 ''340101'' = Some ''2034-01-01''
   \<and> parse_mrz_date 2024 ''350101'' = Some ''1935-01-01''
   \<and> length ''3401'' < 6 \<and> parse_mrz_date 2024 ''3401'' = None
   \<and> list_all mrz_alpha ''3A0101'' \<and> \<not> list_all is_digit (take 6 ''3A0101'')
   \<and> parse_mrz_date 2024 ''3A0101'' = None
   \<and> list_all mrz_alpha ''7408<2F'' \<and> parse_mrz_date 2024 ''7408<2F'' = None"
proof -
  have h1: "length ''340101'' = 6 \<and> list_all is_digit ''340101''" by code_simp
  have h1': "length ''350101'' = 6 \<and> list_all is_digit ''350101''" by code_simp
  have h2: "length ''3401'' < 6" by simp
  have h3: "list_all mrz_alpha ''3A0101'' \<and> 6 \<le> length ''3A0101''
      \<and> \<not> list_all is_digit (take 6 ''3A0101'')" by code_simp
  have h4: "list_all mrz_alpha ''7408<2F''" by code_simp
  have h5: "\<not> (6 \<le> length ''7408<2F'' \<and> list_all is_digit (take 6 ''7408<2F''))" by code_simp
  have y: "fmt_0d 4 2034 = ''2034''" "fmt_0d 4 1935 = ''1935''" by code_simp+
  have d: "digit_val CHR ''3'' = 3" "digit_val CHR ''4'' = 4" "digit_val CHR ''5'' = 5"
    by (simp_all add: digit_val_def cp_def)
  have r1: "parse_mrz_date 2024 ''340101'' = Some ''2034-01-01''"
    using parse_mrz_date_policy[of "''340101''" 2024] h1 by (simp add: Let_def d y)
  have r1': "parse_mrz_date 2024 ''350101'' = Some ''1935-01-01''"
    using parse_mrz_date_policy[of "''350101''" 2024] h1' by (simp add: Let_def d y)
  have r2: "parse_mrz_date 2024 ''3401'' = None"
    using parse_mrz_date_policy[of "''3401''" 2024] h2 by blast
  have r3: "parse_mrz_date 2024 ''3A0101'' = None"
    using parse_mrz_date_policy[of "''3A0101''" 2024] h3 by blast
  have r4: "parse_mrz_date 2024 ''7408<2F'' = None"
    using parse_mrz_date_policy[of "''7408<2F''" 2024] h4 h5 by blast
  show ?thesis using h1 h2 h3 h4 r1 r1' r2 r3 r4 by blast
qed

text \<open>
  Outside the MRZ alphabet \<open>int\<close> also reads a slice made of a sign or a blank and one
  digit. No caller of \<open>_parse_mrz_date\<close> passes such a string.
\<close>

lemma parse_mrz_date_signed_slice:
  "\<not> list_all mrz_alpha ''+50101''
   \<and> parse_mrz_date 2024 ''+50101'' = Some ''2005-01-01''"
  by code_simp

section \<open>Properties of the state normalisation\<close>

lemma state_codes_nonempty: "list_all (\<lambda>kv. snd kv \<noteq> []) US_STATES"
  by code_simp

lemma zz_no_code: "''ZZ'' \<notin> snd ` set US_STATES"
  by code_simp

lemma map_of_state_nonempty: "map_of US_STATES k = Some v \<Longrightarrow> v \<noteq> []"
proof -
  assume "map_of US_STATES k = Some v"
  then have "(k, v) \<in> set US_STATES" by (rule map_of_SomeD)
  with state_codes_nonempty show ?thesis by (auto simp: list_all_iff)
qed

lemma upper_Nil_iff: "(upper s = []) = (s = [])"
  by (cases s) (simp_all add: upper_def upper_chars_def)

lemma upper_nonempty: "s \<noteq> [] \<Longrightarrow> take 2 (upper s) \<noteq> []"
  by (simp add: upper_Nil_iff)

lemma normalize_state_truthy: "s \<noteq> [] \<Longrightarrow> truthy (normalize_state (Some s))"
  by (auto simp: normalize_state_def upper_Nil_iff map_of_state_nonempty split: option.splits)

lemma normalize_state_unknown:
  "s \<noteq> [] \<Longrightarrow> strip (lower s) \<notin> fst ` set US_STATES \<Longrightarrow>
     normalize_state (Some s) = Some (take 2 (upper s))"
  by (simp add: normalize_state_def map_of_eq_None_iff[THEN iffD2])

lemma infer_country_state:
  "\<not> truthy (a_country d) \<Longrightarrow> truthy (a_state d) \<Longrightarrow>
     a_country (infer_country d) = Some ''United States'' \<and> a_state (infer_country d) = a_state d"
  by (simp add: infer_country_def)

lemma g28_text_state:
  assumes "srch Pat_state t = Some s" "s \<noteq> []"
  shows "a_state (g28_extract_from_text srch t) = normalize_state (Some s)
       \<and> a_country (g28_extract_from_text srch t) = Some ''United States''"
  using assms normalize_state_truthy[OF assms(2)]
  by (simp add: g28_extract_from_text_def infer_country_def empty_attorney_def)

text \<open>
  Claim C10. \<open>normalize_state\<close> is total: it gives \<open>None\<close> for \<open>None\<close> and for the empty
  string, and for a non-empty string whose lower-case, stripped form is no key of
  \<open>US_STATES\<close> it gives the first two characters of the upper-case input, which is never
  \<open>None\<close> and never empty. So a normalised state need not be a state code: \<open>ZZ\<close> is
  returned as it is and is no value of the table. The country inference of the G-28
  text extraction fires for every non-empty state the pattern finds, recognised or not.
\<close>

theorem normalize_state_lossy:
  "normalize_state None = None \<and> normalize_state (Some []) = None
   \<and> (s \<noteq> [] \<and> strip (lower s) \<notin> fst ` set US_STATES \<longrightarrow>
        normalize_state (Some s) = Some (take 2 (upper s)) \<and> take 2 (upper s) \<noteq> [])
   \<and> (s \<noteq> [] \<longrightarrow> normalize_state (Some s) \<noteq> None)
   \<and> normalize_state (Some ''ZZ'') = Some ''ZZ'' \<and> ''ZZ'' \<notin> snd ` set US_STATES
   \<and> (srch Pat_state t = Some s \<and> s \<noteq> [] \<longrightarrow>
        a_state (g28_extract_from_text srch t) = normalize_state (Some s)
        \<and> a_country (g28_extract_from_text srch t) = Some ''United States'')"
proof (intro conjI impI)
  show "normalize_state None = None" "normalize_state (Some []) = None"
    by (simp_all add: normalize_state_def)
  show "normalize_state (Some ''ZZ'') = Some ''ZZ''" by code_simp
  show "''ZZ'' \<notin> snd ` set US_STATES" by (rule zz_no_code)
next
  assume a: "s \<noteq> [] \<and> strip (lower s) \<notin> fst ` set US_STATES"
  then show "normalize_state (Some s) = Some (take 2 (upper s))"
    by (simp add: normalize_state_unknown)
  from a show "take 2 (upper s) \<noteq> []" by (simp add: upper_Nil_iff)
next
  assume "s \<noteq> []"
  then have "truthy (normalize_state (Some s))" by (rule normalize_state_truthy)
  then show "normalize_state (Some s) \<noteq> None" by (auto simp: truthy_iff)
next
  assume a: "srch Pat_state t = Some s \<and> s \<noteq> []"
  then show "a_state (g28_extract_from_text srch t) = normalize_state (Some s)"
    and "a_country (g28_extract_from_text srch t) = Some ''United States''"
    using g28_text_state[of srch t s] by simp_all
qed

text \<open>The theorem at the unrecognised state \<open>ZZ\<close>.\<close>

theorem normalize_state_lossy_witness:
  "(''ZZ'' \<noteq> [] \<and> strip (lower ''ZZ'') \<notin> fst ` set US_STATES)
   \<and> normalize_state (Some ''ZZ'') = Some (take 2 (upper ''ZZ''))
   \<and> normalize_state (Some ''ZZ'') \<noteq> None
   \<and> example_state_search Pat_state example_state_text = Some ''ZZ''
   \<and> a_state (g28_extract_from_text example_state_search example_state_text) = Some ''ZZ''
   \<and> a_country (g28_extract_from_text example_state_search example_state_text)
       = Some ''United States''"
proof -
  note inst = normalize_state_lossy[of "''ZZ''" example_state_search example_state_text]
  have h1: "''ZZ'' \<noteq> [] \<and> strip (lower ''ZZ'') \<notin> fst ` set US_STATES" by code_simp
  have h2: "example_state_search Pat_state example_state_text = Some ''ZZ''" by code_simp
  have z: "normalize_state (Some ''ZZ'') = Some ''ZZ''" by code_simp
  from inst h1 have r1: "normalize_state (Some ''ZZ'') = Some (take 2 (upper ''ZZ''))" by blast
  from inst h1 have r2: "normalize_state (Some ''ZZ'') \<noteq> None" by blast
  from inst h1 h2 have r3: "a_state (g28_extract_from_text example_state_search example_state_text)
        = normalize_state (Some ''ZZ'')
      \<and> a_country (g28_extract_from_text example_state_search example_state_text)
        = Some ''United States''" by blast
  show ?thesis using h1 h2 r1 r2 r3 unfolding z by blast
qed

section \<open>Properties of the PDF form-field ingestion\<close>

lemma repair_clears:
  "a_mobile_phone d = Some m \<Longrightarrow> CHR ''@'' \<in> set m \<Longrightarrow>
     a_mobile_phone (repair_mobile_email d) = None
     \<and> a_email (repair_mobile_email d) = (if truthy (a_email d) then a_email d else Some m)"
  by (auto simp: repair_mobile_email_def)

lemma repair_keeps:
  "(\<forall>m. a_mobile_phone d = Some m \<longrightarrow> CHR ''@'' \<notin> set m) \<Longrightarrow> repair_mobile_email d = d"
  by (auto simp: repair_mobile_email_def split: option.splits)

lemma repair_no_at:
  "a_mobile_phone (repair_mobile_email d) = Some m \<Longrightarrow> CHR ''@'' \<notin> set m"
  by (auto simp: repair_mobile_email_def split: option.splits if_splits)

lemma pdf_fields_no_at:
  assumes "extract_pdf_form_fields pdf = (Some data, b)" "a_mobile_phone data = Some m"
  shows "CHR ''@'' \<notin> set m"
proof -
  from assms(1) obtain pages where
    "data = (repair_mobile_email (attorney_of_fields (collect_form_fields (concat pages) [])))
           \<lparr>a_confidence_score := Some (calculate_confidence
              (repair_mobile_email (attorney_of_fields (collect_form_fields (concat pages) []))))\<rparr>"
    by (rule pdf_fields_returned)
  with assms(2) show ?thesis using repair_no_at by simp
qed

lemma g28_extract_no_at:
  assumes "a_mobile_phone (fst (g28_extract inp)) = Some m"
  shows "CHR ''@'' \<notin> set m"
proof (cases inp rule: g28_extract_cases)
  case (pdf fd b)
  with assms pdf_fields_no_at[OF pdf(2), of m] show ?thesis by simp
next
  case ocr
  with assms show ?thesis by (simp add: g28_text_no_mobile)
next
  case failed
  with assms show ?thesis by (simp add: failed_attorney_def empty_attorney_def)
qed

lemma usable_value_nonempty: "usable_value v = Some w \<Longrightarrow> w \<noteq> []"
  by (auto simp: usable_value_def split: if_splits)

lemma mapped_value_nonempty: "mapped_value ff n = Some w \<Longrightarrow> w \<noteq> []"
  by (auto simp: mapped_value_def lookup_usable_def usable_value_nonempty split: option.splits)

lemma mapped_value_truthy: "truthy (mapped_value ff n) = (mapped_value ff n \<noteq> None)"
  using mapped_value_nonempty[of ff n] by (cases "mapped_value ff n") auto

lemma attorney_of_fields_contact:
  "a_mobile_phone (attorney_of_fields ff) = mapped_value ff ''Line7_MobileTelephoneNumber[0]''
   \<and> a_email (attorney_of_fields ff) = mapped_value ff ''Line6_EMail[0]''"
  by (simp add: attorney_of_fields_def)

lemma pdf_fields_contact:
  assumes "extract_pdf_form_fields (Returned pages) = (Some data, b)"
  shows "let ff = collect_form_fields (concat pages) [];
             mobile = mapped_value ff ''Line7_MobileTelephoneNumber[0]'';
             email = mapped_value ff ''Line6_EMail[0]''
         in (case mobile of
               None \<Rightarrow> a_mobile_phone data = None \<and> a_email data = email
             | Some v \<Rightarrow>
                 if CHR ''@'' \<in> set v
                 then a_mobile_phone data = None
                      \<and> a_email data = (if email = None then Some v else email)
                 else a_mobile_phone data = Some v \<and> a_email data = email)"
proof -
  let ?ff = "collect_form_fields (concat pages) []"
  let ?d = "attorney_of_fields ?ff"
  from assms have data: "data = (repair_mobile_email ?d)
      \<lparr>a_confidence_score := Some (calculate_confidence (repair_mobile_email ?d))\<rparr>"
    by (auto simp: extract_pdf_form_fields_def Let_def split: if_splits)
  note c = attorney_of_fields_contact[of ?ff]
  show ?thesis
  proof (cases "mapped_value ?ff ''Line7_MobileTelephoneNumber[0]''")
    case None
    then have "repair_mobile_email ?d = ?d" using c by (simp add: repair_mobile_email_def)
    then show ?thesis using None c data by (simp add: Let_def)
  next
    case (Some v)
    show ?thesis
    proof (cases "CHR ''@'' \<in> set v")
      case True
      have m: "a_mobile_phone ?d = Some v" using Some c by simp
      from repair_clears[OF m True] show ?thesis
        using Some True c data mapped_value_truthy[of ?ff "''Line6_EMail[0]''"]
        by (simp add: Let_def)
    next
      case False
      have "repair_mobile_email ?d = ?d" using Some False c by (simp add: repair_mobile_email_def)
      then show ?thesis using Some False c data by (simp add: Let_def)
    qed
  qed
qed

lemma example_mobile_result:
  "(case fst (extract_pdf_form_fields (Returned example_mobile_widgets)) of
      Some r \<Rightarrow> a_email r = Some ''jane@example.com'' \<and> a_mobile_phone r = None
    | None \<Rightarrow> False)"
  by code_simp

text \<open>
  Claim C5. When the mobile phone value contains \<open>@\<close>, the phone field is cleared, and
  the value becomes the email unless an email is already set, which is then kept. A
  record without \<open>@\<close> in its phone field is left as it is. So no record that the PDF
  ingestion or the orchestrator returns has \<open>@\<close> in its phone field, and the two contact
  fields of the ingested record are determined by the form's two values as stated. For
  the form whose mobile phone widget holds \<open>jane@example.com\<close> and whose email is unset,
  the email is \<open>jane@example.com\<close> and the phone is \<open>None\<close>.
\<close>

theorem mobile_email_repair:
  "(a_mobile_phone d = Some m \<and> CHR ''@'' \<in> set m \<longrightarrow>
      a_mobile_phone (repair_mobile_email d) = None
      \<and> a_email (repair_mobile_email d) = (if truthy (a_email d) then a_email d else Some m))
   \<and> ((\<forall>v. a_mobile_phone d = Some v \<longrightarrow> CHR ''@'' \<notin> set v) \<longrightarrow> repair_mobile_email d = d)
   \<and> (extract_pdf_form_fields pdf = (Some data, b) \<and> a_mobile_phone data = Some p \<longrightarrow>
        CHR ''@'' \<notin> set p)
   \<and> (a_mobile_phone (fst (g28_extract inp)) = Some q \<longrightarrow> CHR ''@'' \<notin> set q)
   \<and> (extract_pdf_form_fields (Returned pages) = (Some data', b') \<longrightarrow>
        (let ff = collect_form_fields (concat pages) [];
             mobile = mapped_value ff ''Line7_MobileTelephoneNumber[0]'';
             email = mapped_value ff ''Line6_EMail[0]''
         in (case mobile of
               None \<Rightarrow> a_mobile_phone data' = None \<and> a_email data' = email
             | Some v \<Rightarrow>
                 if CHR ''@'' \<in> set v
                 then a_mobile_phone data' = None
                      \<and> a_email data' = (if email = None then Some v else email)
                 else a_mobile_phone data' = Some v \<and> a_email data' = email)))
   \<and> (case fst (extract_pdf_form_fields (Returned example_mobile_widgets)) of
         Some r \<Rightarrow> a_email r = Some ''jane@example.com'' \<and> a_mobile_phone r = None
       | None \<Rightarrow> False)"
proof (intro conjI impI)
  assume "a_mobile_phone d = Some m \<and> CHR ''@'' \<in> set m"
  then show "a_mobile_phone (repair_mobile_email d) = None"
    and "a_email (repair_mobile_email d) = (if truthy (a_email d) then a_email d else Some m)"
    using repair_clears[of d m] by simp_all
next
  assume "\<forall>v. a_mobile_phone d = Some v \<longrightarrow> CHR ''@'' \<notin> set v"
  then show "repair_mobile_email d = d" by (rule repair_keeps)
next
  assume "extract_pdf_form_fields pdf = (Some data, b) \<and> a_mobile_phone data = Some p"
  then show "CHR ''@'' \<notin> set p" using pdf_fields_no_at by blast
next
  assume "a_mobile_phone (fst (g28_extract inp)) = Some q"
  then show "CHR ''@'' \<notin> set q" by (rule g28_extract_no_at)
next
  assume "extract_pdf_form_fields (Returned pages) = (Some data', b')"
  then show "let ff = collect_form_fields (concat pages) [];
             mobile = mapped_value ff ''Line7_MobileTelephoneNumber[0]'';
             email = mapped_value ff ''Line6_EMail[0]''
         in (case mobile of
               None \<Rightarrow> a_mobile_phone data' = None \<and> a_email data' = email
             | Some v \<Rightarrow>
                 if CHR ''@'' \<in> set v
                 then a_mobile_phone data' = None
                      \<and> a_email data' = (if email = None then Some v else email)
                 else a_mobile_phone data' = Some v \<and> a_email data' = email)"
    by (rule pdf_fields_contact)
next
  show "case fst (extract_pdf_form_fields (Returned example_mobile_widgets)) of
         Some r \<Rightarrow> a_email r = Some ''jane@example.com'' \<and> a_mobile_phone r = None
       | None \<Rightarrow> False"
    by (rule example_mobile_result)
qed

text \<open>The theorem on records with a misplaced email address, with and without an email
  of their own, and on a form with a real phone number.\<close>

theorem mobile_email_repair_witness:
  "(a_mobile_phone example_misplaced = Some ''jane@example.com''
      \<and> CHR ''@'' \<in> set ''jane@example.com'')
   \<and> a_mobile_phone (repair_mobile_email example_misplaced) = None
   \<and> a_email (repair_mobile_email example_misplaced) = Some ''jane@example.com''
   \<and> a_mobile_phone (repair_mobile_email example_misplaced_with_email) = None
   \<and> a_email (repair_mobile_email example_misplaced_with_email) = Some ''office@example.com''
   \<and> repair_mobile_email empty_attorney = empty_attorney
   \<and> a_mobile_phone (fst (g28_extract example_contact_form)) = Some ''555 0100''
   \<and> CHR ''@'' \<notin> set ''555 0100''
   \<and> a_email (fst (g28_extract example_contact_form)) = Some ''joe@example.com''"
proof -
  have h1: "a_mobile_phone example_misplaced = Some ''jane@example.com''
      \<and> CHR ''@'' \<in> set ''jane@example.com''" by code_simp
  have h2: "a_mobile_phone example_misplaced_with_email = Some ''jane@example.com''
      \<and> CHR ''@'' \<in> set ''jane@example.com''" by code_simp
  have e1: "\<not> truthy (a_email example_misplaced)" by code_simp
  have e2: "truthy (a_email example_misplaced_with_email)"
    "a_email example_misplaced_with_email = Some ''office@example.com''" by code_simp+
  have h3: "\<forall>v. a_mobile_phone empty_attorney = Some v \<longrightarrow> CHR ''@'' \<notin> set v"
    by (simp add: empty_attorney_def)
  have h4: "a_mobile_phone (fst (g28_extract example_contact_form)) = Some ''555 0100''"
    by code_simp
  have h5: "a_email (fst (g28_extract example_contact_form)) = Some ''joe@example.com''"
    by code_simp
  from mobile_email_repair[of example_misplaced "''jane@example.com''"] h1 e1
  have r1: "a_mobile_phone (repair_mobile_email example_misplaced) = None
      \<and> a_email (repair_mobile_email example_misplaced) = Some ''jane@example.com''"
    by simp
  from mobile_email_repair[of example_misplaced_with_email "''jane@example.com''"] h2 e2
  have r2: "a_mobile_phone (repair_mobile_email example_misplaced_with_email) = None
      \<and> a_email (repair_mobile_email example_misplaced_with_email) = Some ''office@example.com''"
    by simp
  from mobile_email_repair[of empty_attorney] h3
  have r3: "repair_mobile_email empty_attorney = empty_attorney" by blast
  from mobile_email_repair[of _ _ _ _ _ _ example_contact_form "''555 0100''"] h4
  have r4: "CHR ''@'' \<notin> set ''555 0100''" by blast
  show ?thesis using h1 r1 r2 r3 h4 r4 h5 by blast
qed

section \<open>Properties of the G-28 orchestrator\<close>

lemma confidence_method_irrelevant:
  "calculate_confidence (d\<lparr>a_extraction_method := m\<rparr>) = calculate_confidence d"
  by (simp add: calculate_confidence_def)

lemma pdf_fields_score:
  assumes "extract_pdf_form_fields pdf = (Some fd, b)"
  shows "a_confidence_score fd = Some (calculate_confidence fd)"
proof -
  from assms obtain pages where
    d: "fd = (repair_mobile_email (attorney_of_fields (collect_form_fields (concat pages) [])))
           \<lparr>a_confidence_score := Some (calculate_confidence
              (repair_mobile_email (attorney_of_fields (collect_form_fields (concat pages) []))))\<rparr>"
    by (rule pdf_fields_returned)
  show ?thesis by (subst (1 2) d) (simp add: calculate_confidence_def)
qed

text \<open>
  Claim C3, as the code has it. The result of the PDF form-field strategy is returned,
  with the method \<open>PDF_FORM_FIELDS\<close>, exactly when its score is strictly above 0.3; with
  a score of 0.3 or less, with no form fields or with a file that is no PDF the
  orchestrator goes on to the OCR strategy. The OCR strategy has no threshold: whenever
  the OCR gives any text, its record is returned with the method \<open>OCR+NLP\<close> and the
  score it computes, whatever that is. The \<open>FAILED\<close> record is returned exactly when the
  OCR gives no text.
\<close>

theorem g28_threshold_policy:
  "(lower (gi_suffix inp) = ''.pdf'' \<and> extract_pdf_form_fields (gi_pdf inp) = (Some fd, b)
      \<and> calculate_confidence fd > 0.3 \<longrightarrow>
        g28_extract inp = (fd\<lparr>a_extraction_method := Some ''PDF_FORM_FIELDS''\<rparr>, b)
        \<and> a_confidence_score fd = Some (calculate_confidence fd))
   \<and> (lower (gi_suffix inp) = ''.pdf'' \<and> extract_pdf_form_fields (gi_pdf inp) = (Some fd, b)
      \<and> calculate_confidence fd \<le> 0.3 \<longrightarrow>
        g28_pdf_strategy inp = None \<and> g28_extract inp = g28_ocr_fallback inp)
   \<and> (lower (gi_suffix inp) \<noteq> ''.pdf'' \<or> fst (extract_pdf_form_fields (gi_pdf inp)) = None \<longrightarrow>
        g28_pdf_strategy inp = None \<and> g28_extract inp = g28_ocr_fallback inp)
   \<and> (a_extraction_method (fst (g28_extract inp)) = Some ''PDF_FORM_FIELDS'' \<longrightarrow>
        calculate_confidence (fst (g28_extract inp)) > 0.3
        \<and> a_confidence_score (fst (g28_extract inp))
            = Some (calculate_confidence (fst (g28_extract inp))))
   \<and> (g28_pdf_strategy inp = None \<and> accumulate_text inp (g28_get_images inp) [] \<noteq> [] \<longrightarrow>
        a_extraction_method (fst (g28_extract inp)) = Some ''OCR+NLP''
        \<and> a_confidence_score (fst (g28_extract inp))
            = Some (calculate_confidence (g28_extract_from_text (gi_search inp)
                 (accumulate_text inp (g28_get_images inp) []))))
   \<and> (g28_pdf_strategy inp = None \<and> accumulate_text inp (g28_get_images inp) [] = [] \<longrightarrow>
        g28_extract inp = (failed_attorney, None))"
proof (intro conjI impI)
  assume a: "lower (gi_suffix inp) = ''.pdf'' \<and> extract_pdf_form_fields (gi_pdf inp) = (Some fd, b)
      \<and> calculate_confidence fd > 0.3"
  then show "g28_extract inp = (fd\<lparr>a_extraction_method := Some ''PDF_FORM_FIELDS''\<rparr>, b)"
    by (simp add: g28_extract_def g28_pdf_strategy_def)
  from a show "a_confidence_score fd = Some (calculate_confidence fd)"
    using pdf_fields_score by blast
next
  assume a: "lower (gi_suffix inp) = ''.pdf'' \<and> extract_pdf_form_fields (gi_pdf inp) = (Some fd, b)
      \<and> calculate_confidence fd \<le> 0.3"
  then show n: "g28_pdf_strategy inp = None" by (simp add: g28_pdf_strategy_def)
  then show "g28_extract inp = g28_ocr_fallback inp" by (simp add: g28_extract_def)
next
  assume a: "lower (gi_suffix inp) \<noteq> ''.pdf'' \<or> fst (extract_pdf_form_fields (gi_pdf inp)) = None"
  then show n: "g28_pdf_strategy inp = None"
    by (auto simp: g28_pdf_strategy_def split: prod.splits option.splits)
  then show "g28_extract inp = g28_ocr_fallback inp" by (simp add: g28_extract_def)
next
  assume m: "a_extraction_method (fst (g28_extract inp)) = Some ''PDF_FORM_FIELDS''"
  have "calculate_confidence (fst (g28_extract inp)) > 0.3
        \<and> a_confidence_score (fst (g28_extract inp))
            = Some (calculate_confidence (fst (g28_extract inp)))"
  proof (cases inp rule: g28_extract_cases)
    case (pdf fd' b')
    then show ?thesis using pdf_fields_score[OF pdf(2)]
      by (simp add: confidence_method_irrelevant)
  next
    case ocr
    with m show ?thesis by simp
  next
    case failed
    with m show ?thesis by (simp add: failed_attorney_def empty_attorney_def)
  qed
  then show "calculate_confidence (fst (g28_extract inp)) > 0.3"
    and "a_confidence_score (fst (g28_extract inp))
            = Some (calculate_confidence (fst (g28_extract inp)))" by simp_all
next
  assume a: "g28_pdf_strategy inp = None \<and> accumulate_text inp (g28_get_images inp) [] \<noteq> []"
  then show "a_extraction_method (fst (g28_extract inp)) = Some ''OCR+NLP''"
    and "a_confidence_score (fst (g28_extract inp))
            = Some (calculate_confidence (g28_extract_from_text (gi_search inp)
                 (accumulate_text inp (g28_get_images inp) [])))"
    by (simp_all add: g28_extract_def g28_ocr_fallback_def Let_def)
next
  assume "g28_pdf_strategy inp = None \<and> accumulate_text inp (g28_get_images inp) [] = []"
  then show "g28_extract inp = (failed_attorney, None)"
    by (simp add: g28_extract_def g28_ocr_fallback_def)
qed

text \<open>
  Claim C3 as stated fails for the OCR strategy: on a scan with text in which no pattern
  matches, the record is returned with the score 0, which is not above 0.3, and is not
  the \<open>FAILED\<close> record.
\<close>

theorem g28_ocr_threshold_counterexample:
  "a_extraction_method (fst (g28_extract example_scan)) = Some ''OCR+NLP''
   \<and> a_confidence_score (fst (g28_extract example_scan)) = Some 0
   \<and> \<not> (0 :: rat) > 0.3
   \<and> a_extraction_method (fst (g28_extract example_scan)) \<noteq> Some ''FAILED''"
  by code_simp

text \<open>
  The theorem on three documents: a form whose score 0.5 is accepted, a form whose score
  0.25 is rejected and which then fails for want of any OCR text, and a scan that the OCR
  strategy returns.
\<close>

theorem g28_threshold_policy_witness:
  "a_extraction_method (fst (g28_extract example_form)) = Some ''PDF_FORM_FIELDS''
   \<and> calculate_confidence (fst (g28_extract example_form)) > 0.3
   \<and> a_confidence_score (fst (g28_extract example_form)) = Some 0.5
   \<and> lower (gi_suffix example_sparse_form) = ''.pdf''
   \<and> (\<exists>fd b. extract_pdf_form_fields (gi_pdf example_sparse_form) = (Some fd, b)
          \<and> calculate_confidence fd = 0.25)
   \<and> g28_pdf_strategy example_sparse_form = None
   \<and> accumulate_text example_sparse_form (g28_get_images example_sparse_form) [] = []
   \<and> g28_extract example_sparse_form = (failed_attorney, None)
   \<and> g28_pdf_strategy example_scan = None
   \<and> accumulate_text example_scan (g28_get_images example_scan) [] \<noteq> []
   \<and> a_extraction_method (fst (g28_extract example_scan)) = Some ''OCR+NLP''"
proof -
  have h1: "a_extraction_method (fst (g28_extract example_form)) = Some ''PDF_FORM_FIELDS''"
    by code_simp
  have v1: "calculate_confidence (fst (g28_extract example_form)) = 0.5" by code_simp
  from g28_threshold_policy[of example_form] h1
  have r1: "calculate_confidence (fst (g28_extract example_form)) > 0.3
     \<and> a_confidence_score (fst (g28_extract example_form))
         = Some (calculate_confidence (fst (g28_extract example_form)))" by blast
  have s: "lower (gi_suffix example_sparse_form) = ''.pdf''" by code_simp
  have e: "fst (extract_pdf_form_fields (gi_pdf example_sparse_form)) \<noteq> None" by code_simp
  have c: "calculate_confidence (the (fst (extract_pdf_form_fields (gi_pdf example_sparse_form))))
             = 0.25" by code_simp
  from e c obtain fd b where
    f: "extract_pdf_form_fields (gi_pdf example_sparse_form) = (Some fd, b)"
    and fc: "calculate_confidence fd = 0.25"
    by (cases "extract_pdf_form_fields (gi_pdf example_sparse_form)") auto
  have le: "calculate_confidence fd \<le> 0.3" unfolding fc by simp
  from g28_threshold_policy[of example_sparse_form fd b] s f le
  have r2: "g28_pdf_strategy example_sparse_form = None" by blast
  have t2: "accumulate_text example_sparse_form (g28_get_images example_sparse_form) [] = []"
    by code_simp
  from g28_threshold_policy[of example_sparse_form] r2 t2
  have r3: "g28_extract example_sparse_form = (failed_attorney, None)" by blast
  have s3: "lower (gi_suffix example_scan) \<noteq> ''.pdf''" by code_simp
  from g28_threshold_policy[of example_scan] s3
  have r4: "g28_pdf_strategy example_scan = None" by blast
  have t4: "accumulate_text example_scan (g28_get_images example_scan) [] \<noteq> []" by code_simp
  from g28_threshold_policy[of example_scan] r4 t4
  have r5: "a_extraction_method (fst (g28_extract example_scan)) = Some ''OCR+NLP''" by blast
  from r1 have r1': "a_confidence_score (fst (g28_extract example_form)) = Some 0.5"
    unfolding v1 by simp
  show ?thesis using h1 r1 r1' s f fc r2 t2 r3 r4 t4 r5 by blast
qed

section \<open>Provenance\<close>

text \<open>
  Claim C9. In every record that the passport orchestrator or the G-28 orchestrator
  returns, the confidence score is set if and only if the extraction method is set; in
  fact both are always set. The same holds for every beneficiary record, which carries
  the method \<open>G28_BENEFICIARY\<close> and the score 0.5.
\<close>

theorem provenance_set_together:
  "((confidence_score (passport_extract inp) \<noteq> None)
      = (extraction_method (passport_extract inp) \<noteq> None))
   \<and> confidence_score (passport_extract inp) \<noteq> None
   \<and> ((a_confidence_score (fst (g28_extract doc)) \<noteq> None)
      = (a_extraction_method (fst (g28_extract doc)) \<noteq> None))
   \<and> a_confidence_score (fst (g28_extract doc)) \<noteq> None
   \<and> (snd (g28_extract doc) = Some b \<longrightarrow>
        extraction_method b = Some ''G28_BENEFICIARY'' \<and> confidence_score b = Some 0.5)
   \<and> (beneficiary_of_fields ff = Some b' \<longrightarrow>
        extraction_method b' = Some ''G28_BENEFICIARY'' \<and> confidence_score b' = Some 0.5)"
proof (intro conjI impI)
  show "(confidence_score (passport_extract inp) \<noteq> None)
      = (extraction_method (passport_extract inp) \<noteq> None)"
    using passport_extract_provenance[of inp] by simp
  show "confidence_score (passport_extract inp) \<noteq> None"
    using passport_extract_provenance[of inp] by simp
  show "(a_confidence_score (fst (g28_extract doc)) \<noteq> None)
      = (a_extraction_method (fst (g28_extract doc)) \<noteq> None)"
    using g28_extract_provenance[of doc] by simp
  show "a_confidence_score (fst (g28_extract doc)) \<noteq> None"
    using g28_extract_provenance[of doc] by simp
next
  assume "snd (g28_extract doc) = Some b"
  then show "extraction_method b = Some ''G28_BENEFICIARY''" "confidence_score b = Some 0.5"
    using g28_beneficiary_provenance[of doc b] by simp_all
next
  assume "beneficiary_of_fields ff = Some b'"
  then show "extraction_method b' = Some ''G28_BENEFICIARY''" "confidence_score b' = Some 0.5"
    using beneficiary_provenance[of ff b'] by simp_all
qed

theorem provenance_set_together_witness:
  "snd (g28_extract example_form) \<noteq> None
   \<and> (\<exists>b. snd (g28_extract example_form) = Some b
          \<and> extraction_method b = Some ''G28_BENEFICIARY'' \<and> confidence_score b = Some 0.5)
   \<and> confidence_score (passport_extract example_unreadable) \<noteq> None
   \<and> extraction_method (passport_extract example_unreadable) \<noteq> None
   \<and> a_confidence_score (fst (g28_extract example_scan)) \<noteq> None
   \<and> a_extraction_method (fst (g28_extract example_scan)) \<noteq> None"
proof -
  have h: "snd (g28_extract example_form) \<noteq> None" by code_simp
  then obtain b where b: "snd (g28_extract example_form) = Some b" by blast
  note inst = provenance_set_together[of example_unreadable example_scan]
  from provenance_set_together[of _ example_form b] b
  have r: "extraction_method b = Some ''G28_BENEFICIARY'' \<and> confidence_score b = Some 0.5"
    by blast
  show ?thesis using h b r inst by blast
qed

section \<open>Total extraction failure\<close>

lemma failed_passport_fields:
  "failed_passport =
     \<lparr>last_name = None, first_name = None, middle_name = None, passport_number = None,
      country_of_issue = None, nationality = None, date_of_birth = None,
      place_of_birth = None, sex = None, date_of_issue = None, date_of_expiration = None,
      extraction_method = Some ''FAILED'', confidence_score = Some 0\<rparr>"
  by (simp add: failed_passport_def empty_passport_def)

lemma failed_attorney_fields:
  "failed_attorney =
     \<lparr>a_last_name = None, a_first_name = None, a_middle_name = None,
      a_street_address = None, a_apt_ste_flr = None, a_city = None, a_state = None,
      a_zip_code = None, a_country = None, a_daytime_phone = None, a_mobile_phone = None,
      a_email = None, a_licensing_authority = None, a_bar_number = None,
      a_law_firm_name = None, a_online_account_number = None,
      a_extraction_method = Some ''FAILED'', a_confidence_score = Some 0\<rparr>"
  by (simp add: failed_attorney_def empty_attorney_def)

text \<open>Where \<open>PIL\<close> is installed the two orchestrators return, and where it is not the
  passport orchestrator raises.\<close>

lemma passport_outcome_installed:
  "passport_extract_outcome True inp = Returned (passport_extract inp)"
  by (simp add: passport_extract_outcome_def passport_extract_def split: option.splits)

lemma passport_outcome_missing: "passport_extract_outcome False inp = Raised"
  by (simp add: passport_extract_outcome_def)

lemma g28_outcome_installed: "g28_extract_outcome True doc = Returned (g28_extract doc)"
  by (simp add: g28_extract_outcome_def g28_extract_def split: option.splits)

lemma passport_failed_only:
  "extraction_method (passport_extract inp) = Some ''FAILED'' \<Longrightarrow>
     passport_extract inp = failed_passport"
proof (cases inp rule: passport_extract_cases)
  case (llm r)
  assume "extraction_method (passport_extract inp) = Some ''FAILED''"
  with llm show ?thesis
    using llm_extract_provenance[of inp r] llm_strategy_Some[of inp r] by simp
next
  case (mrz k)
  assume "extraction_method (passport_extract inp) = Some ''FAILED''"
  with mrz show ?thesis by simp
next
  case (ocr d)
  assume "extraction_method (passport_extract inp) = Some ''FAILED''"
  with ocr show ?thesis by simp
next
  case failed
  then show ?thesis by simp
qed

lemma g28_failed_only:
  "a_extraction_method (fst (g28_extract doc)) = Some ''FAILED'' \<Longrightarrow>
     g28_extract doc = (failed_attorney, None)"
proof (cases doc rule: g28_extract_cases)
  case (pdf fd b)
  assume "a_extraction_method (fst (g28_extract doc)) = Some ''FAILED''"
  with pdf show ?thesis by simp
next
  case ocr
  assume "a_extraction_method (fst (g28_extract doc)) = Some ''FAILED''"
  with ocr show ?thesis by simp
next
  case failed
  then show ?thesis by simp
qed

text \<open>
  Claim C8, amended. Where \<open>PIL\<close> can be imported, neither orchestrator raises: an
  exception of a collaborator ends its strategy only. When the LLM strategy returns no
  accepted record, the MRZ strategy finds no record with a passport number and the OCR
  strategy finds nothing, \<open>PassportExtractor.extract\<close> returns the record with every data
  field unset, method \<open>FAILED\<close> and confidence 0.0. \<open>G28Extractor.extract\<close> returns that
  record, and no beneficiary, when the PDF strategy is not accepted and OCR produces no
  text; when OCR produces text, it returns the OCR record with the method \<open>OCR+NLP\<close> and
  the score computed for it, whatever that score is, and not the \<open>FAILED\<close> record. A
  result with the method \<open>FAILED\<close> is always exactly the \<open>FAILED\<close> record. The one
  exception that leaves the orchestrators is the \<open>ImportError\<close> of \<open>PIL\<close>, imported in
  \<open>_get_images\<close> before the \<open>try\<close>.
\<close>

theorem total_failure_amended:
  "(pil \<and> llm_strategy inp = None
      \<and> (case extract_mrz inp (get_images inp) of
            None \<Rightarrow> True | Some m \<Rightarrow> \<not> truthy (passport_number m))
      \<and> extract_via_ocr inp (get_images inp) = None
      \<longrightarrow> passport_extract_outcome pil inp = Returned failed_passport)
   \<and> (passport_extract_outcome pil inp = Returned r \<and> extraction_method r = Some ''FAILED''
      \<longrightarrow> r = failed_passport)
   \<and> failed_passport =
       \<lparr>last_name = None, first_name = None, middle_name = None, passport_number = None,
        country_of_issue = None, nationality = None, date_of_birth = None,
        place_of_birth = None, sex = None, date_of_issue = None, date_of_expiration = None,
        extraction_method = Some ''FAILED'', confidence_score = Some 0\<rparr>
   \<and> (pil \<longrightarrow> (\<exists>res. passport_extract_outcome pil inp = Returned res))
   \<and> (\<not> pil \<longrightarrow> passport_extract_outcome pil inp = Raised)
   \<and> (pil \<and> g28_pdf_strategy doc = None \<and> accumulate_text doc (g28_get_images doc) [] = []
      \<longrightarrow> g28_extract_outcome pil doc = Returned (failed_attorney, None))
   \<and> (pil \<and> g28_pdf_strategy doc = None \<and> accumulate_text doc (g28_get_images doc) [] \<noteq> []
      \<longrightarrow> g28_extract_outcome pil doc =
            Returned
              ((g28_extract_from_text (gi_search doc) (accumulate_text doc (g28_get_images doc) []))
                 \<lparr>a_extraction_method := Some ''OCR+NLP'',
                  a_confidence_score := Some (calculate_confidence
                    (g28_extract_from_text (gi_search doc)
                       (accumulate_text doc (g28_get_images doc) [])))\<rparr>,
               None))
   \<and> (g28_extract_outcome pil doc = Returned (a, b) \<and> a_extraction_method a = Some ''FAILED''
      \<longrightarrow> (a, b) = (failed_attorney, None))
   \<and> failed_attorney =
       \<lparr>a_last_name = None, a_first_name = None, a_middle_name = None,
        a_street_address = None, a_apt_ste_flr = None, a_city = None, a_state = None,
        a_zip_code = None, a_country = None, a_daytime_phone = None, a_mobile_phone = None,
        a_email = None, a_licensing_authority = None, a_bar_number = None,
        a_law_firm_name = None, a_online_account_number = None,
        a_extraction_method = Some ''FAILED'', a_confidence_score = Some 0\<rparr>
   \<and> (pil \<or> g28_pdf_strategy doc \<noteq> None \<longrightarrow> (\<exists>res. g28_extract_outcome pil doc = Returned res))
   \<and> (\<not> pil \<and> g28_pdf_strategy doc = None \<longrightarrow> g28_extract_outcome pil doc = Raised)"
proof (intro conjI impI)
  assume "pil \<and> llm_strategy inp = None
      \<and> (case extract_mrz inp (get_images inp) of
            None \<Rightarrow> True | Some m \<Rightarrow> \<not> truthy (passport_number m))
      \<and> extract_via_ocr inp (get_images inp) = None"
  then show "passport_extract_outcome pil inp = Returned failed_passport"
    by (auto simp: passport_extract_outcome_def extract_without_llm_def Let_def
        split: option.splits)
next
  assume a: "passport_extract_outcome pil inp = Returned r \<and> extraction_method r = Some ''FAILED''"
  then have "pil" by (cases pil) (simp_all add: passport_outcome_missing)
  with a have "r = passport_extract inp" by (simp add: passport_outcome_installed)
  with a show "r = failed_passport" using passport_failed_only[of inp] by simp
next
  show "failed_passport =
       \<lparr>last_name = None, first_name = None, middle_name = None, passport_number = None,
        country_of_issue = None, nationality = None, date_of_birth = None,
        place_of_birth = None, sex = None, date_of_issue = None, date_of_expiration = None,
        extraction_method = Some ''FAILED'', confidence_score = Some 0\<rparr>"
    by (rule failed_passport_fields)
next
  assume "pil"
  then show "\<exists>res. passport_extract_outcome pil inp = Returned res"
    by (simp add: passport_outcome_installed)
next
  assume "\<not> pil"
  then show "passport_extract_outcome pil inp = Raised"
    by (simp add: passport_outcome_missing)
next
  assume "pil \<and> g28_pdf_strategy doc = None \<and> accumulate_text doc (g28_get_images doc) [] = []"
  then show "g28_extract_outcome pil doc = Returned (failed_attorney, None)"
    by (simp add: g28_extract_outcome_def g28_ocr_fallback_def)
next
  assume "pil \<and> g28_pdf_strategy doc = None \<and> accumulate_text doc (g28_get_images doc) [] \<noteq> []"
  then show "g28_extract_outcome pil doc =
            Returned
              ((g28_extract_from_text (gi_search doc) (accumulate_text doc (g28_get_images doc) []))
                 \<lparr>a_extraction_method := Some ''OCR+NLP'',
                  a_confidence_score := Some (calculate_confidence
                    (g28_extract_from_text (gi_search doc)
                       (accumulate_text doc (g28_get_images doc) [])))\<rparr>,
               None)"
    by (simp add: g28_extract_outcome_def g28_ocr_fallback_def Let_def)
next
  assume a: "g28_extract_outcome pil doc = Returned (a, b) \<and> a_extraction_method a = Some ''FAILED''"
  then have "g28_extract doc = (a, b)"
    by (auto simp: g28_extract_outcome_def g28_extract_def split: option.splits if_splits)
  with a show "(a, b) = (failed_attorney, None)" using g28_failed_only[of doc] by simp
next
  show "failed_attorney =
       \<lparr>a_last_name = None, a_first_name = None, a_middle_name = None,
        a_street_address = None, a_apt_ste_flr = None, a_city = None, a_state = None,
        a_zip_code = None, a_country = None, a_daytime_phone = None, a_mobile_phone = None,
        a_email = None, a_licensing_authority = None, a_bar_number = None,
        a_law_firm_name = None, a_online_account_number = None,
        a_extraction_method = Some ''FAILED'', a_confidence_score = Some 0\<rparr>"
    by (rule failed_attorney_fields)
next
  assume "pil \<or> g28_pdf_strategy doc \<noteq> None"
  then show "\<exists>res. g28_extract_outcome pil doc = Returned res"
    by (auto simp: g28_extract_outcome_def split: option.splits)
next
  assume "\<not> pil \<and> g28_pdf_strategy doc = None"
  then show "g28_extract_outcome pil doc = Raised"
    by (simp add: g28_extract_outcome_def)
qed

text \<open>
  The theorem on a passport image that no strategy can read, on a form whose only strategy
  with a result scores 0.25 and whose pages cannot be loaded, and on a scan with text.
\<close>

theorem total_failure_amended_witness:
  "llm_strategy example_unreadable = None
   \<and> extract_mrz example_unreadable (get_images example_unreadable) = None
   \<and> extract_via_ocr example_unreadable (get_images example_unreadable) = None
   \<and> passport_extract_outcome True example_unreadable = Returned failed_passport
   \<and> passport_extract_outcome False example_unreadable = Raised
   \<and> g28_pdf_strategy example_sparse_form = None
   \<and> accumulate_text example_sparse_form (g28_get_images example_sparse_form) [] = []
   \<and> g28_extract_outcome True example_sparse_form = Returned (failed_attorney, None)
   \<and> g28_extract_outcome False example_sparse_form = Raised
   \<and> g28_pdf_strategy example_scan = None
   \<and> accumulate_text example_scan (g28_get_images example_scan) [] \<noteq> []
   \<and> (\<exists>res. g28_extract_outcome True example_scan = Returned res
          \<and> a_extraction_method (fst res) = Some ''OCR+NLP'')"
proof -
  have h1: "llm_strategy example_unreadable = None" by code_simp
  have h2: "extract_mrz example_unreadable (get_images example_unreadable) = None"
    by code_simp
  have h3: "extract_via_ocr example_unreadable (get_images example_unreadable) = None"
    by code_simp
  have h4: "g28_pdf_strategy example_sparse_form = None" by code_simp
  have h5: "accumulate_text example_sparse_form (g28_get_images example_sparse_form) [] = []"
    by code_simp
  have h6: "g28_pdf_strategy example_scan = None" by code_simp
  have h7: "accumulate_text example_scan (g28_get_images example_scan) [] \<noteq> []"
    by code_simp
  note inst1 = total_failure_amended[of True example_unreadable _ example_sparse_form]
  note inst2 = total_failure_amended[of False example_unreadable _ example_sparse_form]
  note inst3 = total_failure_amended[of True example_unreadable _ example_scan]
  from inst1 h1 h2 h3
  have r1: "passport_extract_outcome True example_unreadable = Returned failed_passport"
    by simp
  from inst2 have r2: "passport_extract_outcome False example_unreadable = Raised"
    by blast
  from inst1 h4 h5
  have r3: "g28_extract_outcome True example_sparse_form = Returned (failed_attorney, None)"
    by blast
  from inst2 h4 have r4: "g28_extract_outcome False example_sparse_form = Raised"
    by blast
  from inst3 h6 h7
  have "g28_extract_outcome True example_scan =
            Returned
              ((g28_extract_from_text (gi_search example_scan)
                  (accumulate_text example_scan (g28_get_images example_scan) []))
                 \<lparr>a_extraction_method := Some ''OCR+NLP'',
                  a_confidence_score := Some (calculate_confidence
                    (g28_extract_from_text (gi_search example_scan)
                       (accumulate_text example_scan (g28_get_images example_scan) [])))\<rparr>,
               None)"
    by blast
  then have r5: "\<exists>res. g28_extract_outcome True example_scan = Returned res
          \<and> a_extraction_method (fst res) = Some ''OCR+NLP''"
    by simp
  show ?thesis using h1 h2 h3 h4 h5 h6 h7 r1 r2 r3 r4 r5 by blast
qed

text \<open>
  The claim as worded fails for \<open>G28Extractor.extract\<close>: on a form whose fields score 0.25
  and whose page text scores 0.25, no strategy has a result above 0.3, yet the OCR record
  is returned, with the method \<open>OCR+NLP\<close> and its score, and not the \<open>FAILED\<close> record.
\<close>

theorem g28_low_scores_counterexample:
  "lower (gi_suffix example_low_scores) = ''.pdf''
   \<and> map_option calculate_confidence (fst (extract_pdf_form_fields (gi_pdf example_low_scores)))
       = Some 0.25
   \<and> g28_pdf_strategy example_low_scores = None
   \<and> a_last_name (fst (g28_extract example_low_scores)) = Some ''Smith''
   \<and> a_confidence_score (fst (g28_extract example_low_scores)) = Some 0.25
   \<and> \<not> (0.25 :: rat) > 0.3
   \<and> g28_extract_outcome True example_low_scores = Returned (g28_extract example_low_scores)
   \<and> a_extraction_method (fst (g28_extract example_low_scores)) = Some ''OCR+NLP''
   \<and> a_extraction_method (fst (g28_extract example_low_scores)) \<noteq> Some ''FAILED''
   \<and> g28_extract example_low_scores \<noteq> (failed_attorney, None)"
proof -
  have h1: "lower (gi_suffix example_low_scores) = ''.pdf''" by code_simp
  have h2: "map_option calculate_confidence
      (fst (extract_pdf_form_fields (gi_pdf example_low_scores))) = Some 0.25" by code_simp
  have h3: "g28_pdf_strategy example_low_scores = None" by code_simp
  have h4: "a_last_name (fst (g28_extract example_low_scores)) = Some ''Smith''" by code_simp
  have h5: "a_confidence_score (fst (g28_extract example_low_scores)) = Some 0.25"
    by code_simp
  have h6: "\<not> (0.25 :: rat) > 0.3" by simp
  have h7: "g28_extract_outcome True example_low_scores
      = Returned (g28_extract example_low_scores)" by (rule g28_outcome_installed)
  have h8: "a_extraction_method (fst (g28_extract example_low_scores)) = Some ''OCR+NLP''"
    by code_simp
  from h8 have h9: "a_extraction_method (fst (g28_extract example_low_scores)) \<noteq> Some ''FAILED''"
    by simp
  have "a_extraction_method (fst (failed_attorney, None :: PassportData option)) = Some ''FAILED''"
    by (simp add: failed_attorney_def)
  with h8 have h10: "g28_extract example_low_scores \<noteq> (failed_attorney, None)" by auto
  show ?thesis using h1 h2 h3 h4 h5 h6 h7 h8 h9 h10 by blast
qed

section \<open>The OCR fallback of the passport orchestrator\<close>

lemma ocr_loop_finds:
  assumes "pg \<in> set imgs" "ocr_plain pg = Returned t" "50 \<le> length t"
    "passport_extract_from_text inp t = Returned data"
    "truthy (passport_number data) \<or> truthy (last_name data)"
  shows "extract_via_ocr_loop inp imgs \<noteq> None"
  using assms
proof (induction imgs)
  case Nil
  then show ?case by simp
next
  case (Cons img imgs)
  show ?case
  proof (cases "pg = img")
    case True
    with Cons.prems show ?thesis by auto
  next
    case False
    with Cons have "extract_via_ocr_loop inp imgs \<noteq> None" by simp
    then show ?thesis by (auto split: outcome.splits)
  qed
qed

lemma ocr_loop_result:
  "extract_via_ocr_loop inp imgs = Some d \<Longrightarrow>
     (truthy (passport_number d) \<or> truthy (last_name d))
     \<and> (\<exists>pg t. pg \<in> set imgs \<and> ocr_plain pg = Returned t \<and> 50 \<le> length t
            \<and> passport_extract_from_text inp t = Returned d)"
proof (induction imgs)
  case Nil
  then show ?case by simp
next
  case (Cons img imgs)
  then show ?case by (auto split: outcome.splits if_splits)
qed

text \<open>
  Claim C1, amended. When the LLM strategy returns no accepted record and the MRZ
  strategy finds no record with a passport number, but \<open>pytesseract\<close> can be imported
  and the OCR text of some page has at least 50 characters on which \<open>_extract_from_text\<close>
  returns a record with a passport number or a last name, then the returned record has
  the method \<open>OCR+NLP\<close> and the confidence 0.7; it is not the \<open>FAILED\<close> record and it
  carries a passport number or a last name.
\<close>

theorem ocr_fallback_amended:
  assumes "llm_strategy inp = None"
    and "case extract_mrz inp (get_images inp) of
           None \<Rightarrow> True | Some m \<Rightarrow> \<not> truthy (passport_number m)"
    and "pytesseract_installed inp"
    and "pg \<in> set (get_images inp)"
    and "ocr_plain pg = Returned t"
    and "50 \<le> length t"
    and "passport_extract_from_text inp t = Returned data"
    and "truthy (passport_number data) \<or> truthy (last_name data)"
  shows "extraction_method (passport_extract inp) = Some ''OCR+NLP''
    \<and> confidence_score (passport_extract inp) = Some 0.7
    \<and> extraction_method (passport_extract inp) \<noteq> Some ''FAILED''
    \<and> passport_extract inp \<noteq> failed_passport
    \<and> (truthy (passport_number (passport_extract inp))
         \<or> truthy (last_name (passport_extract inp)))"
proof -
  from assms(4-8) have "extract_via_ocr_loop inp (get_images inp) \<noteq> None"
    by (rule ocr_loop_finds)
  with assms(3) obtain d where d: "extract_via_ocr inp (get_images inp) = Some d"
    by (auto simp: extract_via_ocr_def)
  then have dl: "extract_via_ocr_loop inp (get_images inp) = Some d"
    by (simp add: extract_via_ocr_def split: if_splits)
  have tr: "truthy (passport_number d) \<or> truthy (last_name d)"
    using ocr_loop_result[OF dl] by blast
  have eq: "passport_extract inp
      = d\<lparr>extraction_method := Some ''OCR+NLP'', confidence_score := Some 0.7\<rparr>"
    using assms(1,2) d
    by (auto simp: passport_extract_def extract_without_llm_def Let_def split: option.splits)
  have m: "extraction_method (passport_extract inp) = Some ''OCR+NLP''"
    by (simp add: eq)
  have "extraction_method failed_passport = Some ''FAILED''"
    by (simp add: failed_passport_def)
  with m have nf: "passport_extract inp \<noteq> failed_passport" by auto
  show ?thesis using tr m nf by (auto simp: eq)
qed

theorem ocr_fallback_amended_witness:
  "llm_strategy example_ocr_only = None
   \<and> extract_mrz example_ocr_only (get_images example_ocr_only) = None
   \<and> pytesseract_installed example_ocr_only
   \<and> example_ocr_page \<in> set (get_images example_ocr_only)
   \<and> ocr_plain example_ocr_page = Returned example_ocr_text
   \<and> length example_ocr_text = 80
   \<and> extraction_method (passport_extract example_ocr_only) = Some ''OCR+NLP''
   \<and> confidence_score (passport_extract example_ocr_only) = Some 0.7"
proof -
  have h1: "llm_strategy example_ocr_only = None" by code_simp
  have h2: "extract_mrz example_ocr_only (get_images example_ocr_only) = None" by code_simp
  have h3: "pytesseract_installed example_ocr_only" by code_simp
  have h4: "example_ocr_page \<in> set (get_images example_ocr_only)"
    by (simp add: get_images_def example_ocr_only_def)
  have h5: "ocr_plain example_ocr_page = Returned example_ocr_text"
    by (simp add: example_ocr_page_def)
  have h6: "length example_ocr_text = 80" by code_simp
  have h7: "passport_extract_from_text example_ocr_only example_ocr_text
      = Returned (empty_passport\<lparr>last_name := Some ''Silva'', first_name := Some ''Maria''\<rparr>)"
    by code_simp
  have h8: "truthy (last_name (empty_passport\<lparr>last_name := Some ''Silva'', first_name := Some ''Maria''\<rparr>))"
    by simp
  note inst = ocr_fallback_amended[of example_ocr_only example_ocr_page example_ocr_text
      "empty_passport\<lparr>last_name := Some ''Silva'', first_name := Some ''Maria''\<rparr>"]
  from inst h1 h2 h3 h4 h5 h6 h7 h8
  have r: "extraction_method (passport_extract example_ocr_only) = Some ''OCR+NLP''
    \<and> confidence_score (passport_extract example_ocr_only) = Some 0.7"
    by simp
  show ?thesis using h1 h2 h3 h4 h5 h6 r by blast
qed

text \<open>
  The claim as worded names the method \<open>OCR_PATTERN\<close>. On a one-page document whose OCR text
  has 80 characters and yields the last name Silva, with no LLM and no MRZ, the returned
  method is \<open>OCR+NLP\<close>.
\<close>

theorem ocr_method_name_counterexample:
  "llm_strategy example_ocr_only = None
   \<and> extract_mrz example_ocr_only (get_images example_ocr_only) = None
   \<and> get_images example_ocr_only = [example_ocr_page]
   \<and> ocr_plain example_ocr_page = Returned example_ocr_text
   \<and> length example_ocr_text = 80
   \<and> last_name (passport_extract example_ocr_only) = Some ''Silva''
   \<and> confidence_score (passport_extract example_ocr_only) = Some 0.7
   \<and> extraction_method (passport_extract example_ocr_only) = Some ''OCR+NLP''
   \<and> extraction_method (passport_extract example_ocr_only) \<noteq> Some ''OCR_PATTERN''"
proof -
  have h1: "llm_strategy example_ocr_only = None" by code_simp
  have h2: "extract_mrz example_ocr_only (get_images example_ocr_only) = None" by code_simp
  have h3: "get_images example_ocr_only = [example_ocr_page]"
    by (simp add: get_images_def example_ocr_only_def)
  have h4: "ocr_plain example_ocr_page = Returned example_ocr_text"
    by (simp add: example_ocr_page_def)
  have h5: "length example_ocr_text = 80" by code_simp
  have h6: "last_name (passport_extract example_ocr_only) = Some ''Silva''" by code_simp
  have h7: "confidence_score (passport_extract example_ocr_only) = Some 0.7" by code_simp
  have h8: "extraction_method (passport_extract example_ocr_only) = Some ''OCR+NLP''"
    by code_simp
  from h8 have h9: "extraction_method (passport_extract example_ocr_only) \<noteq> Some ''OCR_PATTERN''"
    by simp
  show ?thesis using h1 h2 h3 h4 h5 h6 h7 h8 h9 by blast
qed

section \<open>The LLM strategy of the passport orchestrator\<close>

text \<open>
  Claim C6, amended. When \<open>use_llm\<close> is set, the API key is configured, \<open>openai\<close> can be
  imported, the image was prepared and the completion parses to a record with a passport
  number or a last name, \<open>PassportExtractor.extract\<close> returns that record with the
  confidence 0.95 and the method \<open>LLM_OPENAI\<close>. When the LLM is switched off, not
  configured, not installed, the image could not be prepared, the call raises, the
  response does not parse, or the record has neither a passport number nor a last name,
  the result is that of the MRZ strategy and what follows it. Every result is of one of
  these two kinds.
\<close>

theorem llm_acceptance_amended:
  "(use_llm inp \<and> truthy (api_key inp) \<and> openai_installed inp \<and> llm_image_prepared inp
      \<and> llm_completion inp = Returned (Some r)
      \<and> (truthy (passport_number r) \<or> truthy (last_name r))
     \<longrightarrow> passport_extract inp
           = r\<lparr>extraction_method := Some ''LLM_OPENAI'', confidence_score := Some 0.95\<rparr>)
   \<and> (\<not> use_llm inp \<or> \<not> truthy (api_key inp) \<or> \<not> openai_installed inp
        \<or> \<not> llm_image_prepared inp \<or> llm_completion inp = Raised
        \<or> llm_completion inp = Returned None
        \<or> (\<exists>r'. llm_completion inp = Returned (Some r')
               \<and> \<not> truthy (passport_number r') \<and> \<not> truthy (last_name r'))
     \<longrightarrow> passport_extract inp = extract_without_llm inp)
   \<and> (extraction_method (passport_extract inp) = Some ''LLM_OPENAI''
        \<or> passport_extract inp = extract_without_llm inp)"
proof (intro conjI impI)
  assume "use_llm inp \<and> truthy (api_key inp) \<and> openai_installed inp \<and> llm_image_prepared inp
      \<and> llm_completion inp = Returned (Some r)
      \<and> (truthy (passport_number r) \<or> truthy (last_name r))"
  then show "passport_extract inp
           = r\<lparr>extraction_method := Some ''LLM_OPENAI'', confidence_score := Some 0.95\<rparr>"
    by (auto simp: passport_extract_def llm_strategy_def is_llm_available_def llm_extract_def)
next
  assume "\<not> use_llm inp \<or> \<not> truthy (api_key inp) \<or> \<not> openai_installed inp
        \<or> \<not> llm_image_prepared inp \<or> llm_completion inp = Raised
        \<or> llm_completion inp = Returned None
        \<or> (\<exists>r'. llm_completion inp = Returned (Some r')
               \<and> \<not> truthy (passport_number r') \<and> \<not> truthy (last_name r'))"
  then have "llm_strategy inp = None"
    by (auto simp: llm_strategy_def is_llm_available_def llm_extract_def)
  then show "passport_extract inp = extract_without_llm inp"
    by (simp add: passport_extract_def)
next
  show "extraction_method (passport_extract inp) = Some ''LLM_OPENAI''
        \<or> passport_extract inp = extract_without_llm inp"
  proof (cases "llm_strategy inp")
    case None
    then show ?thesis by (simp add: passport_extract_def)
  next
    case (Some x)
    then show ?thesis
      using llm_strategy_Some[of inp x] llm_extract_provenance[of inp x]
      by (simp add: passport_extract_def)
  qed
qed

theorem llm_acceptance_amended_witness:
  "use_llm example_llm \<and> truthy (api_key example_llm) \<and> openai_installed example_llm
   \<and> llm_image_prepared example_llm
   \<and> llm_completion example_llm = Returned (Some example_llm_record)
   \<and> truthy (passport_number example_llm_record)
   \<and> passport_extract example_llm
       = example_llm_record\<lparr>extraction_method := Some ''LLM_OPENAI'',
                            confidence_score := Some 0.95\<rparr>
   \<and> openai_installed example_ocr_only = False
   \<and> passport_extract example_ocr_only = extract_without_llm example_ocr_only"
proof -
  have h1: "use_llm example_llm \<and> truthy (api_key example_llm) \<and> openai_installed example_llm
     \<and> llm_image_prepared example_llm" by code_simp
  have h2: "llm_completion example_llm = Returned (Some example_llm_record)"
    by (simp add: example_llm_def)
  have h3: "truthy (passport_number example_llm_record)" by code_simp
  have h4: "openai_installed example_ocr_only = False" by (simp add: example_ocr_only_def)
  note inst1 = llm_acceptance_amended[of example_llm example_llm_record]
  note inst2 = llm_acceptance_amended[of example_ocr_only]
  from inst1 h1 h2 h3 have r1: "passport_extract example_llm
       = example_llm_record\<lparr>extraction_method := Some ''LLM_OPENAI'',
                            confidence_score := Some 0.95\<rparr>"
    by blast
  from inst2 h4 have r2: "passport_extract example_ocr_only = extract_without_llm example_ocr_only"
    by blast
  show ?thesis using h1 h2 h3 h4 r1 r2 by blast
qed

text \<open>
  The claim as worded names the method \<open>LLM_VISION\<close>. When the completion parses to a record
  with the passport number L898902C3, the returned method is \<open>LLM_OPENAI\<close>.
\<close>

theorem llm_method_name_counterexample:
  "llm_completion example_llm = Returned (Some example_llm_record)
   \<and> passport_number example_llm_record = Some ''L898902C3''
   \<and> passport_number (passport_extract example_llm) = Some ''L898902C3''
   \<and> confidence_score (passport_extract example_llm) = Some 0.95
   \<and> extraction_method (passport_extract example_llm) = Some ''LLM_OPENAI''
   \<and> extraction_method (passport_extract example_llm) \<noteq> Some ''LLM_VISION''"
proof -
  have h1: "llm_completion example_llm = Returned (Some example_llm_record)"
    by (simp add: example_llm_def)
  have h2: "passport_number example_llm_record = Some ''L898902C3''" by code_simp
  have h3: "passport_number (passport_extract example_llm) = Some ''L898902C3''" by code_simp
  have h4: "confidence_score (passport_extract example_llm) = Some 0.95" by code_simp
  have h5: "extraction_method (passport_extract example_llm) = Some ''LLM_OPENAI''"
    by code_simp
  from h5 have h6: "extraction_method (passport_extract example_llm) \<noteq> Some ''LLM_VISION''"
    by simp
  show ?thesis using h1 h2 h3 h4 h5 h6 by blast
qed

section \<open>The merge of beneficiary names into the passport record\<close>

lemma merge_names_last:
  "last_name (merge_names e b) = (if truthy (last_name e) then last_name e else last_name b)"
  by (simp add: merge_names_def Let_def)

lemma merge_names_first:
  "first_name (merge_names e b) = (if truthy (first_name e) then first_name e else first_name b)"
  by (simp add: merge_names_def Let_def)

lemma merge_names_middle:
  "middle_name (merge_names e b)
     = (if truthy (middle_name e) then middle_name e else middle_name b)"
  by (simp add: merge_names_def Let_def)

lemma merge_names_frame:
  "merge_names e b
     = e\<lparr>last_name := last_name (merge_names e b),
         first_name := first_name (merge_names e b),
         middle_name := middle_name (merge_names e b)\<rparr>"
  by (simp add: merge_names_def Let_def)

lemma upload_g28_store_entry:
  "upload_g28_store st sid a bd sid
     = Some ((case st sid of None \<Rightarrow> empty_form_data | Some e \<Rightarrow> e)
          \<lparr>attorney := Some a,
           passport := merge_beneficiary
              (passport (case st sid of None \<Rightarrow> empty_form_data | Some e \<Rightarrow> e)) bd\<rparr>)"
  by (simp add: upload_g28_store_def Let_def)

text \<open>
  Claim C2. When \<open>upload_g28\<close> merges a beneficiary record into an existing passport
  record, each of last name, first name and middle name keeps its value when it is
  populated and takes the beneficiary's value when it is unset (\<open>None\<close> or the empty
  string, as \<open>not\<close> tests it); every other field of the existing record, the passport
  number, the dates, the extraction method and the confidence score among them, is
  unchanged. With no existing passport record the beneficiary record is stored as it is,
  with no beneficiary record the stored one is kept, and no other session is touched.
\<close>

theorem merge_policy:
  "(truthy (last_name e) \<longrightarrow> last_name (merge_names e b) = last_name e)
   \<and> (\<not> truthy (last_name e) \<longrightarrow> last_name (merge_names e b) = last_name b)
   \<and> (truthy (first_name e) \<longrightarrow> first_name (merge_names e b) = first_name e)
   \<and> (\<not> truthy (first_name e) \<longrightarrow> first_name (merge_names e b) = first_name b)
   \<and> (truthy (middle_name e) \<longrightarrow> middle_name (merge_names e b) = middle_name e)
   \<and> (\<not> truthy (middle_name e) \<longrightarrow> middle_name (merge_names e b) = middle_name b)
   \<and> merge_names e b
       = e\<lparr>last_name := last_name (merge_names e b),
           first_name := first_name (merge_names e b),
           middle_name := middle_name (merge_names e b)\<rparr>
   \<and> passport_number (merge_names e b) = passport_number e
   \<and> country_of_issue (merge_names e b) = country_of_issue e
   \<and> nationality (merge_names e b) = nationality e
   \<and> date_of_birth (merge_names e b) = date_of_birth e
   \<and> place_of_birth (merge_names e b) = place_of_birth e
   \<and> sex (merge_names e b) = sex e
   \<and> date_of_issue (merge_names e b) = date_of_issue e
   \<and> date_of_expiration (merge_names e b) = date_of_expiration e
   \<and> extraction_method (merge_names e b) = extraction_method e
   \<and> confidence_score (merge_names e b) = confidence_score e
   \<and> merge_beneficiary (Some e) (Some b) = Some (merge_names e b)
   \<and> merge_beneficiary None (Some b) = Some b
   \<and> merge_beneficiary stored None = stored
   \<and> (st sid = Some entry \<longrightarrow>
        upload_g28_store st sid a bd sid
          = Some (entry\<lparr>attorney := Some a,
                        passport := merge_beneficiary (passport entry) bd\<rparr>))
   \<and> (st sid = None \<longrightarrow>
        upload_g28_store st sid a bd sid
          = Some (empty_form_data\<lparr>attorney := Some a, passport := bd\<rparr>))
   \<and> (other \<noteq> sid \<longrightarrow> upload_g28_store st sid a bd other = st other)"
proof -
  have names: "(truthy (last_name e) \<longrightarrow> last_name (merge_names e b) = last_name e)
   \<and> (\<not> truthy (last_name e) \<longrightarrow> last_name (merge_names e b) = last_name b)
   \<and> (truthy (first_name e) \<longrightarrow> first_name (merge_names e b) = first_name e)
   \<and> (\<not> truthy (first_name e) \<longrightarrow> first_name (merge_names e b) = first_name b)
   \<and> (truthy (middle_name e) \<longrightarrow> middle_name (merge_names e b) = middle_name e)
   \<and> (\<not> truthy (middle_name e) \<longrightarrow> middle_name (merge_names e b) = middle_name b)"
    by (simp add: merge_names_last merge_names_first merge_names_middle)
  have frame: "merge_names e b
       = e\<lparr>last_name := last_name (merge_names e b),
           first_name := first_name (merge_names e b),
           middle_name := middle_name (merge_names e b)\<rparr>"
    by (rule merge_names_frame)
  have others: "passport_number (merge_names e b) = passport_number e
   \<and> country_of_issue (merge_names e b) = country_of_issue e
   \<and> nationality (merge_names e b) = nationality e
   \<and> date_of_birth (merge_names e b) = date_of_birth e
   \<and> place_of_birth (merge_names e b) = place_of_birth e
   \<and> sex (merge_names e b) = sex e
   \<and> date_of_issue (merge_names e b) = date_of_issue e
   \<and> date_of_expiration (merge_names e b) = date_of_expiration e
   \<and> extraction_method (merge_names e b) = extraction_method e
   \<and> confidence_score (merge_names e b) = confidence_score e"
    by (simp add: merge_names_def Let_def)
  have mb: "merge_beneficiary (Some e) (Some b) = Some (merge_names e b)
   \<and> merge_beneficiary None (Some b) = Some b
   \<and> merge_beneficiary stored None = stored"
    by (simp add: merge_beneficiary_def)
  have s1: "st sid = Some entry \<longrightarrow>
        upload_g28_store st sid a bd sid
          = Some (entry\<lparr>attorney := Some a,
                        passport := merge_beneficiary (passport entry) bd\<rparr>)"
    by (simp add: upload_g28_store_entry)
  have s2: "st sid = None \<longrightarrow>
        upload_g28_store st sid a bd sid
          = Some (empty_form_data\<lparr>attorney := Some a, passport := bd\<rparr>)"
    by (cases bd) (simp_all add: upload_g28_store_entry merge_beneficiary_def empty_form_data_def)
  have s3: "other \<noteq> sid \<longrightarrow> upload_g28_store st sid a bd other = st other"
    by (simp add: upload_g28_store_def Let_def)
  from names frame others mb s1 s2 s3 show ?thesis by blast
qed

theorem merge_policy_witness:
  "truthy (first_name example_existing) \<and> \<not> truthy (last_name example_existing)
   \<and> \<not> truthy (middle_name example_existing)
   \<and> first_name (merge_names example_existing example_beneficiary) = Some ''Ana''
   \<and> last_name (merge_names example_existing example_beneficiary) = Some ''Silva''
   \<and> middle_name (merge_names example_existing example_beneficiary) = None
   \<and> passport_number (merge_names example_existing example_beneficiary) = Some ''L898902C3''
   \<and> extraction_method (merge_names example_existing example_beneficiary) = Some ''MRZ''
   \<and> example_store ''s1'' = Some (empty_form_data\<lparr>passport := Some example_existing\<rparr>)
   \<and> upload_g28_store example_store ''s1'' failed_attorney (Some example_beneficiary) ''s1''
       = Some (empty_form_data\<lparr>passport := Some example_existing\<rparr>
                 \<lparr>attorney := Some failed_attorney,
                  passport := Some (merge_names example_existing example_beneficiary)\<rparr>)
   \<and> example_store ''s2'' = None
   \<and> upload_g28_store example_store ''s2'' failed_attorney (Some example_beneficiary) ''s2''
       = Some (empty_form_data\<lparr>attorney := Some failed_attorney,
                                passport := Some example_beneficiary\<rparr>)
   \<and> upload_g28_store example_store ''s2'' failed_attorney (Some example_beneficiary) ''s1''
       = example_store ''s1''"
proof -
  have h1: "truthy (first_name example_existing)" by code_simp
  have h2: "\<not> truthy (last_name example_existing)" by code_simp
  have h3: "\<not> truthy (middle_name example_existing)" by code_simp
  have v1: "first_name example_existing = Some ''Ana''" by code_simp
  have v2: "last_name example_beneficiary = Some ''Silva''" by code_simp
  have v3: "middle_name example_beneficiary = None" by code_simp
  have v4: "passport_number example_existing = Some ''L898902C3''" by code_simp
  have v5: "extraction_method example_existing = Some ''MRZ''" by code_simp
  have h4: "example_store ''s1'' = Some (empty_form_data\<lparr>passport := Some example_existing\<rparr>)"
    by (simp add: example_store_def)
  have h5: "example_store ''s2'' = None" by (simp add: example_store_def)
  have h6: "''s1'' \<noteq> ''s2''" by simp
  note inst1 = merge_policy[of example_existing example_beneficiary None example_store "''s1''"
      "empty_form_data\<lparr>passport := Some example_existing\<rparr>" failed_attorney
      "Some example_beneficiary" "''s2''"]
  note inst2 = merge_policy[of example_existing example_beneficiary None example_store "''s2''"
      "empty_form_data" failed_attorney "Some example_beneficiary" "''s1''"]
  from inst1 h1 h2 h3 v1 v2 v3 v4 v5
  have r1: "first_name (merge_names example_existing example_beneficiary) = Some ''Ana''
   \<and> last_name (merge_names example_existing example_beneficiary) = Some ''Silva''
   \<and> middle_name (merge_names example_existing example_beneficiary) = None
   \<and> passport_number (merge_names example_existing example_beneficiary) = Some ''L898902C3''
   \<and> extraction_method (merge_names example_existing example_beneficiary) = Some ''MRZ''"
    by simp
  from inst1 h4
  have r2: "upload_g28_store example_store ''s1'' failed_attorney (Some example_beneficiary) ''s1''
       = Some (empty_form_data\<lparr>passport := Some example_existing\<rparr>
                 \<lparr>attorney := Some failed_attorney,
                  passport := Some (merge_names example_existing example_beneficiary)\<rparr>)"
    by simp
  from inst2 h5
  have r3: "upload_g28_store example_store ''s2'' failed_attorney (Some example_beneficiary) ''s2''
       = Some (empty_form_data\<lparr>attorney := Some failed_attorney,
                                passport := Some example_beneficiary\<rparr>)"
    by blast
  from inst2 h6
  have r4: "upload_g28_store example_store ''s2'' failed_attorney (Some example_beneficiary) ''s1''
       = example_store ''s1''"
    by blast
  show ?thesis using h1 h2 h3 h4 h5 r1 r2 r3 r4 by blast
qed

end
